theory Spec2Isabelle
  imports Main "HOL-Library.Multiset"
begin

section \<open>Python text primitives used by the repository\<close>

text \<open>
  A Python \<open>str\<close> is modelled as a \<open>string\<close>, one \<open>char\<close> per code point, and \<open>bytes\<close> as
  a \<open>string\<close> as well, one \<open>char\<close> per byte. The type \<open>char\<close> has 256 values, so the
  strings of the model are those over the first 256 code points.
\<close>

definition ascii_lowercase :: string where
  "ascii_lowercase = ''abcdefghijklmnopqrstuvwxyz''"

definition ascii_uppercase :: string where
  "ascii_uppercase = ''ABCDEFGHIJKLMNOPQRSTUVWXYZ''"

definition digits :: string where
  "digits = ''0123456789''"

text \<open>A character is ASCII when its eighth bit is clear.\<close>

definition is_ascii :: "char \<Rightarrow> bool" where
  "is_ascii c \<longleftrightarrow> \<not> digit7 c"

text \<open>\<open>c.lower()\<close> and \<open>c.upper()\<close> for one ASCII character.\<close>

definition lower_char :: "char \<Rightarrow> char" where
  "lower_char c = (case map_of (zip ascii_uppercase ascii_lowercase) c of
                     Some l \<Rightarrow> l | None \<Rightarrow> c)"

definition upper_char :: "char \<Rightarrow> char" where
  "upper_char c = (case map_of (zip ascii_lowercase ascii_uppercase) c of
                     Some u \<Rightarrow> u | None \<Rightarrow> c)"

text \<open>
  \<open>s.lower()\<close> for a string all of whose cased characters are ASCII. It is used where the
  operand consists of ASCII characters (behind the substitution of the path sanitiser)
  and where the result is only compared with \<open>.wav\<close> or \<open>wav\<close>: no character outside
  ASCII is lowered to a dot or to one of the letters \<open>w\<close>, \<open>a\<close>, \<open>v\<close>, so the outcome of
  that comparison does not depend on how the other characters are folded.
\<close>

definition ascii_lower :: "string \<Rightarrow> string" where
  "ascii_lower s = map lower_char s"

text \<open>
  The character tables of the interpreter. On ASCII characters they are fixed and
  written out below; what \<open>lower()\<close>, \<open>upper()\<close>, \<open>isalnum()\<close> and \<open>isspace()\<close> make of a
  character outside ASCII belongs to the interpreter's Unicode database and is a
  parameter (the case mappings give a string, since a character can map to several).
\<close>

record unicode =
  lower_beyond :: "char \<Rightarrow> string"
  upper_beyond :: "char \<Rightarrow> string"
  isalnum_beyond :: "char \<Rightarrow> bool"
  isspace_beyond :: "char \<Rightarrow> bool"

definition str_lower :: "unicode \<Rightarrow> string \<Rightarrow> string" where
  "str_lower u s =
     concat (map (\<lambda>c. if is_ascii c then [lower_char c] else lower_beyond u c) s)"

definition str_upper :: "unicode \<Rightarrow> string \<Rightarrow> string" where
  "str_upper u s =
     concat (map (\<lambda>c. if is_ascii c then [upper_char c] else upper_beyond u c) s)"

text \<open>\<open>s.strip(chars)\<close>: drop leading and trailing characters that occur in \<open>chars\<close>.\<close>

definition str_strip_chars :: "string \<Rightarrow> string \<Rightarrow> string" where
  "str_strip_chars chars s =
     rev (dropWhile (\<lambda>c. c \<in> set chars) (rev (dropWhile (\<lambda>c. c \<in> set chars) s)))"

text \<open>\<open>sub in s\<close> for two strings: \<open>sub\<close> occurs in \<open>s\<close> as a contiguous substring.\<close>

fun contains :: "string \<Rightarrow> string \<Rightarrow> bool" where
  "contains sub [] = (sub = [])"
| "contains sub (c # cs) = (take (length sub) (c # cs) = sub \<or> contains sub cs)"

text \<open>
  \<open>c.isspace()\<close> and \<open>c.isalnum()\<close>. The ASCII whitespace characters are tab, line feed,
  vertical tab, form feed, carriage return, the four separators \<open>0x1C\<close> to \<open>0x1F\<close> and
  the space; the ASCII alphanumeric characters are the letters and the digits.
\<close>

definition isspace :: "unicode \<Rightarrow> char \<Rightarrow> bool" where
  "isspace u c \<longleftrightarrow>
     (if is_ascii c
      then c \<in> set [CHR 0x09, CHR 0x0A, CHR 0x0B, CHR 0x0C, CHR 0x0D,
                     CHR 0x1C, CHR 0x1D, CHR 0x1E, CHR 0x1F, CHR '' '']
      else isspace_beyond u c)"

definition isalnum :: "unicode \<Rightarrow> char \<Rightarrow> bool" where
  "isalnum u c \<longleftrightarrow>
     (if is_ascii c then c \<in> set (ascii_lowercase @ ascii_uppercase @ digits)
      else isalnum_beyond u c)"

text \<open>\<open>s.strip()\<close>: drop leading and trailing whitespace.\<close>

definition str_strip :: "unicode \<Rightarrow> string \<Rightarrow> string" where
  "str_strip u s = rev (dropWhile (isspace u) (rev (dropWhile (isspace u) s)))"

text \<open>
  \<open>s.split()\<close>: the maximal runs of non-whitespace characters, in order. \<open>split_words\<close>
  carries the word being read.
\<close>

fun split_words :: "unicode \<Rightarrow> string \<Rightarrow> string \<Rightarrow> string list" where
  "split_words u word [] = (if word = [] then [] else [word])"
| "split_words u word (c # cs) =
     (if isspace u c
      then (if word = [] then split_words u [] cs else word # split_words u [] cs)
      else split_words u (word @ [c]) cs)"

definition str_split :: "unicode \<Rightarrow> string \<Rightarrow> string list" where
  "str_split u s = split_words u [] s"

text \<open>\<open>sep.join(xs)\<close>.\<close>

fun str_join :: "string \<Rightarrow> string list \<Rightarrow> string" where
  "str_join sep [] = []"
| "str_join sep [x] = x"
| "str_join sep (x # y # ys) = x @ sep @ str_join sep (y # ys)"




definition rsplit_dot_head :: "string \<Rightarrow> string" where
  "rsplit_dot_head s =
     (if CHR ''.'' \<in> set s then rev (tl (dropWhile (\<lambda>c. c \<noteq> CHR ''.'') (rev s))) else s)"

section \<open>Python values, exceptions and calls\<close>

text \<open>
  Every \<open>raise\<close> of the source, and every exception the interpreter raises on its behalf,
  is a value: a function that can raise returns \<open>exn + 'a\<close>, with \<open>Inl\<close> the exception.
  \<open>message\<close> is what \<open>str(e)\<close> gives.
\<close>

datatype exn_class =
    TypeError | KeyError | NameError | ValueError | OSError
  | FileSystemError | ValidationError
  | ClientError | NoCredentialsError | WaveError
  | ServiceError

datatype exn = Exn (exn_class: exn_class) (message: string)

text \<open>
  A \<open>Dict[str, str]\<close> (a command row, a metadata bag) is an association list; \<open>d[k]\<close> raises
  \<open>KeyError\<close> on a missing key and \<open>d.get(k, default)\<close> does not.
\<close>

type_synonym pydict = "(string \<times> string) list"

definition getitem :: "pydict \<Rightarrow> string \<Rightarrow> exn + string" where
  "getitem d k = (case map_of d k of None \<Rightarrow> Inl (Exn KeyError k) | Some v \<Rightarrow> Inr v)"

definition dict_get :: "pydict \<Rightarrow> string \<Rightarrow> string \<Rightarrow> string" where
  "dict_get d k dflt = (case map_of d k of None \<Rightarrow> dflt | Some v \<Rightarrow> v)"

text \<open>The values that travel through untyped positional arguments.\<close>

datatype pyval = PBytes string | PStr string | PInt int | PBool bool | PDict pydict

text \<open>
  Binding positional arguments to a signature with \<open>required\<close> parameters without a
  default out of \<open>maximum\<close> positional parameters (\<open>self\<close> not counted): too few or too
  many arguments raise \<open>TypeError\<close> before the body runs.
\<close>

definition bind_arguments :: "string \<Rightarrow> nat \<Rightarrow> nat \<Rightarrow> 'a list \<Rightarrow> exn + 'a list" where
  "bind_arguments name required maximum args =
     (if length args < required then
        Inl (Exn TypeError (name @ ''() missing required positional arguments''))
      else if maximum < length args then
        Inl (Exn TypeError (name @ ''() takes fewer positional arguments than were given''))
      else Inr args)"

text \<open>
  Looking a bare name up in a module: a name that the module neither imports nor
  defines (and that is no builtin) raises \<open>NameError\<close> when the expression is evaluated.
\<close>

definition lookup_global :: "string list \<Rightarrow> string \<Rightarrow> exn + unit" where
  "lookup_global globals name =
     (if name \<in> set globals then Inr ()
      else Inl (Exn NameError (''name '' @ name @ '' is not defined'')))"

text \<open>\<open>str(n)\<close> for an integer, as the f-strings of the source print it.\<close>

function str_of_nat :: "nat \<Rightarrow> string" where
  "str_of_nat n =
     (if n < 10 then [digits ! n] else str_of_nat (n div 10) @ [digits ! (n mod 10)])"
  by pat_completeness auto
termination
  by (relation "measure id") auto

definition str_of_int :: "int \<Rightarrow> string" where
  "str_of_int i = (if i < 0 then ''-'' @ str_of_nat (nat (- i)) else str_of_nat (nat i))"

section \<open>pathlib and the local file system\<close>

text \<open>
  What the repository uses of \<open>pathlib\<close> on a POSIX system. A path is its anchor and
  the list of its components. The anchor of a string is \<open>//\<close> when the string starts
  with exactly two slashes, \<open>/\<close> when it starts with one or with three or more, and
  empty otherwise; parsing splits the string at the slashes and drops empty components
  and \<open>.\<close>; joining with a path that has an anchor gives that path.
\<close>

text \<open>\<open>s.split(sep)\<close> for a one-character separator.\<close>

fun split_on :: "char \<Rightarrow> string \<Rightarrow> string list" where
  "split_on sep [] = [[]]"
| "split_on sep (c # cs) =
     (if c = sep then [] # split_on sep cs
      else (case split_on sep cs of [] \<Rightarrow> [[c]] | x # xs \<Rightarrow> (c # x) # xs))"

record Path =
  anchor :: string
  segments :: "string list"

definition anchor_of_str :: "string \<Rightarrow> string" where
  "anchor_of_str s =
     (if take 2 s = ''//'' \<and> take 3 s \<noteq> ''///'' then ''//''
      else if take 1 s = ''/'' then ''/''
      else [])"

definition Path_of_str :: "string \<Rightarrow> Path" where
  "Path_of_str s =
     \<lparr> anchor = anchor_of_str s,
       segments = filter (\<lambda>x. x \<noteq> [] \<and> x \<noteq> ''.'') (split_on CHR ''/'' s) \<rparr>"

definition joinpath :: "Path \<Rightarrow> Path \<Rightarrow> Path" where
  "joinpath p q = (if anchor q \<noteq> [] then q else p\<lparr> segments := segments p @ segments q \<rparr>)"

text \<open>\<open>p / s\<close> for a string \<open>s\<close>, and \<open>Path(s1, ..., sn)\<close>.\<close>

definition path_div :: "Path \<Rightarrow> string \<Rightarrow> Path" where
  "path_div p s = joinpath p (Path_of_str s)"

definition Path_of_parts :: "string list \<Rightarrow> Path" where
  "Path_of_parts strs = foldl path_div \<lparr> anchor = [], segments = [] \<rparr> strs"

text \<open>\<open>str(p)\<close>, \<open>p.name\<close>, \<open>p.parent\<close>, \<open>p.suffix\<close> and \<open>p.with_suffix(suffix)\<close>.\<close>

definition path_str :: "Path \<Rightarrow> string" where
  "path_str p =
     (if segments p = [] then (if anchor p = [] then ''.'' else anchor p)
      else anchor p @ str_join ''/'' (segments p))"

definition path_name :: "Path \<Rightarrow> string" where
  "path_name p = (if segments p = [] then [] else last (segments p))"

definition path_parent :: "Path \<Rightarrow> Path" where
  "path_parent p = p\<lparr> segments := butlast (segments p) \<rparr>"

text \<open>
  The suffix of a name is its part from the last dot on, when that dot is neither the
  first nor the last character of the name.
\<close>

definition name_suffix :: "string \<Rightarrow> string" where
  "name_suffix name =
     (let ext = rev (takeWhile (\<lambda>c. c \<noteq> CHR ''.'') (rev name))
      in if CHR ''.'' \<in> set name \<and> ext \<noteq> [] \<and> Suc (length ext) < length name
         then CHR ''.'' # ext else [])"

definition path_suffix :: "Path \<Rightarrow> string" where
  "path_suffix p = name_suffix (path_name p)"

definition with_suffix :: "Path \<Rightarrow> string \<Rightarrow> exn + Path" where
  "with_suffix p suffix =
     (if path_name p = [] then Inl (Exn ValueError ''path has an empty name'')
      else Inr (p\<lparr> segments := butlast (segments p)
                    @ [take (length (path_name p) - length (path_suffix p)) (path_name p)
                       @ suffix] \<rparr>))"

text \<open>
  The local file system: what is at a path, if anything. The root and the working
  directory (the paths without components) always exist and are directories.
\<close>

datatype node = File string | Directory

type_synonym filesystem = "Path \<Rightarrow> node option"


definition is_dir :: "filesystem \<Rightarrow> Path \<Rightarrow> bool" where
  "is_dir fs p \<longleftrightarrow> segments p = [] \<or> fs p = Some Directory"

definition is_file :: "filesystem \<Rightarrow> Path \<Rightarrow> bool" where
  "is_file fs p \<longleftrightarrow> (case fs p of Some (File _) \<Rightarrow> segments p \<noteq> [] | _ \<Rightarrow> False)"

text \<open>The path itself and the directories above it, below the root.\<close>

definition lineage :: "Path \<Rightarrow> Path list" where
  "lineage p = map (\<lambda>n. p\<lparr> segments := take n (segments p) \<rparr>) [1..<Suc (length (segments p))]"

text \<open>\<open>p.mkdir(parents=True, exist_ok=True)\<close>: fails when \<open>p\<close> or a directory above it is a
  file, and otherwise makes all of them directories.\<close>

definition mkdir_parents :: "filesystem \<Rightarrow> Path \<Rightarrow> exn + filesystem" where
  "mkdir_parents fs p =
     (if list_ex (is_file fs) (lineage p) then Inl (Exn OSError ''File exists'')
      else Inr (\<lambda>q. if q \<in> set (lineage p) then Some Directory else fs q))"

text \<open>\<open>open(p, 'wb')\<close> followed by \<open>write(content)\<close>: the file is created or truncated.\<close>

definition write_bytes :: "filesystem \<Rightarrow> Path \<Rightarrow> string \<Rightarrow> exn + filesystem" where
  "write_bytes fs p content =
     (if is_dir fs p then Inl (Exn OSError ''Is a directory'')
      else if \<not> is_dir fs (path_parent p) then Inl (Exn OSError ''No such file or directory'')
      else Inr (fs(p \<mapsto> File content)))"


section \<open>audio\_converter (backend/src/utils/audio\_converter.py)\<close>

definition SUPPORTED_FORMATS :: "string list" where
  "SUPPORTED_FORMATS = [''m4a'', ''wav'']"

definition DEFAULT_SAMPLE_RATE :: int where
  "DEFAULT_SAMPLE_RATE = 16000"

definition DEFAULT_BIT_DEPTH :: int where
  "DEFAULT_BIT_DEPTH = 16"

text \<open>
  The operating system as \<open>convert_audio\<close> sees it: whether a path exists, and the return
  code of the FFmpeg run for (input path, sample rate, codec, bit depth, output path),
  or the exception \<open>subprocess.run\<close> raises.
\<close>

record os_env =
  os_path_exists :: "pyval \<Rightarrow> bool"
  run_ffmpeg :: "pyval \<Rightarrow> pyval \<Rightarrow> string \<Rightarrow> pyval \<Rightarrow> pyval \<Rightarrow> exn + int"

text \<open>
  \<open>log_decorator\<close> (backend/src/utils/logger.py): the wrapper passes all its arguments on to
  the function, returns its result and re-raises its exception; the log lines are not
  modelled.
\<close>

definition log_decorator :: "('a \<Rightarrow> exn + 'b) \<Rightarrow> 'a \<Rightarrow> exn + 'b" where
  "log_decorator func args = (case func args of Inl e \<Rightarrow> Inl e | Inr result \<Rightarrow> Inr result)"

text \<open>
  The body of \<open>convert_audio\<close>, once its five parameters are bound. \<open>FileSystemError\<close> and
  \<open>ValidationError\<close> are re-raised, any other exception makes it return \<open>False\<close>.
\<close>

definition convert_audio_body ::
  "os_env \<Rightarrow> pyval \<Rightarrow> pyval \<Rightarrow> pyval \<Rightarrow> pyval \<Rightarrow> pyval \<Rightarrow> exn + pyval" where
  "convert_audio_body env input_path output_path target_format sample_rate bit_depth =
     (if \<not> os_path_exists env input_path then
        Inl (Exn FileSystemError ''Input file does not exist'')
      else if target_format \<notin> set (map PStr SUPPORTED_FORMATS) then
        Inl (Exn ValidationError ''Unsupported target format'')
      else
        (case run_ffmpeg env input_path sample_rate
                (if target_format = PStr ''wav'' then ''pcm_s16le'' else ''aac'')
                bit_depth output_path of
           Inl e \<Rightarrow> Inr (PBool False)
         | Inr returncode \<Rightarrow> Inr (PBool (returncode = 0))))"

text \<open>
  \<open>convert_audio(input_path, output_path, target_format, sample_rate=16000, bit_depth=16)\<close>
  called with a list of positional arguments: three parameters are required, five are
  accepted.
\<close>

definition convert_audio :: "os_env \<Rightarrow> pyval list \<Rightarrow> exn + pyval" where
  "convert_audio env =
     log_decorator (\<lambda>args.
       case bind_arguments ''convert_audio'' 3 5 args of
         Inl e \<Rightarrow> Inl e
       | Inr a \<Rightarrow>
           convert_audio_body env (a ! 0) (a ! 1) (a ! 2)
             (if 3 < length a then a ! 3 else PInt DEFAULT_SAMPLE_RATE)
             (if 4 < length a then a ! 4 else PInt DEFAULT_BIT_DEPTH))"

section \<open>BatchProcessor (backend/src/core/batch\_processor.py)\<close>

text \<open>
  A \<open>BatchProcessor\<close> holds what its constructor is given and what tests replace on the
  instance: the configured number of workers, the injected file manager's \<open>validate_file\<close>, the injected input processor's
  \<open>process_file\<close>, the two service calls \<open>_call_gpt_api\<close> and \<open>_generate_audio\<close> (text and
  language to audio bytes), the operating system, the character tables of the
  interpreter it runs in, and what the file manager's
  two-parameter method \<open>save_audio_file(audio_data, metadata)\<close> does to the store \<open>'w\<close>
  once it is entered. The processor is taken as constructed; the constructor's own
  calls are not part of the model. Every effect on the store is explicit: an operation takes the
  store and returns the new one beside its result, also when it raises.
\<close>

record 'w BatchProcessor =
  max_workers :: int
  validate_file :: "string \<Rightarrow> exn + bool"
  process_file :: "string \<Rightarrow> nat \<Rightarrow> exn + pydict list"
  call_gpt_api :: "string \<Rightarrow> exn + string list"
  generate_audio :: "string \<Rightarrow> string \<Rightarrow> exn + string"
  save_audio_file_body :: "'w \<Rightarrow> string \<Rightarrow> pydict \<Rightarrow> (exn + string \<times> string) \<times> 'w"
  environment :: os_env
  interpreter :: unicode

text \<open>The placeholder bodies of \<open>_call_gpt_api\<close> and \<open>_generate_audio\<close>.\<close>

definition placeholder_call_gpt_api :: "string \<Rightarrow> exn + string list" where
  "placeholder_call_gpt_api phrase =
     Inr (map (\<lambda>i. phrase @ '' (variation '' @ str_of_nat i @ '')'') [1..<6])"

definition placeholder_generate_audio :: "string \<Rightarrow> string \<Rightarrow> exn + string" where
  "placeholder_generate_audio utterance lang = Inr ''audio_data_placeholder''"

definition BatchProcessor_init ::
  "int \<Rightarrow> (string \<Rightarrow> exn + bool) \<Rightarrow> (string \<Rightarrow> nat \<Rightarrow> exn + pydict list) \<Rightarrow>
   ('w \<Rightarrow> string \<Rightarrow> pydict \<Rightarrow> (exn + string \<times> string) \<times> 'w) \<Rightarrow> os_env \<Rightarrow> unicode \<Rightarrow>
   'w BatchProcessor" where
  "BatchProcessor_init config_max_workers file_manager_validate input_processor_process
       file_manager_save env tables =
     \<lparr> max_workers = config_max_workers,
       validate_file = file_manager_validate,
       process_file = input_processor_process,
       call_gpt_api = placeholder_call_gpt_api,
       generate_audio = placeholder_generate_audio,
       save_audio_file_body = file_manager_save,
       environment = env,
       interpreter = tables \<rparr>"

text \<open>
  \<open>self.file_manager.save_audio_file(...)\<close> as a call with positional arguments against
  \<open>FileManager.save_audio_file(self, audio_data, metadata)\<close>: two parameters besides
  \<open>self\<close>, both required.
\<close>

definition file_manager_save_audio_file ::
  "'w BatchProcessor \<Rightarrow> 'w \<Rightarrow> pyval list \<Rightarrow> (exn + string \<times> string) \<times> 'w" where
  "file_manager_save_audio_file bp w args =
     (case bind_arguments ''save_audio_file'' 2 2 args of
        Inl e \<Rightarrow> (Inl e, w)
      | Inr a \<Rightarrow>
          (case (a ! 0, a ! 1) of
             (PBytes audio_data, PDict metadata) \<Rightarrow> save_audio_file_body bp w audio_data metadata
           | _ \<Rightarrow> (Inl (Exn TypeError ''save_audio_file: bytes and a dict are required''), w)))"

text \<open>
  \<open>_validate_variations\<close>: the intent-preservation filter, \<open>intent.lower() in v.lower()\<close>
  with the \<open>lower()\<close> of the interpreter.
\<close>

definition validate_variations ::
  "'w BatchProcessor \<Rightarrow> string list \<Rightarrow> string \<Rightarrow> string list" where
  "validate_variations bp variations intent_name =
     filter (\<lambda>v. contains (str_lower (interpreter bp) intent_name)
                        (str_lower (interpreter bp) v)) variations"

definition generate_variations :: "'w BatchProcessor \<Rightarrow> pydict \<Rightarrow> exn + string list" where
  "generate_variations bp command =
     (case getitem command ''phrase'' of
        Inl e \<Rightarrow> Inl e
      | Inr phrase_text \<Rightarrow>
          (case call_gpt_api bp phrase_text of
             Inl e \<Rightarrow> Inl e
           | Inr raw_variations \<Rightarrow>
               (case getitem command ''intent'' of
                  Inl e \<Rightarrow> Inl e
                | Inr intent_name \<Rightarrow> Inr (validate_variations bp raw_variations intent_name))))"

text \<open>
  The \<open>try\<close> block of \<open>create_audio_files\<close> for one variation: synthesise, convert, save.
  \<open>convert_audio\<close> is called with the two arguments \<open>(audio_data, 'wav')\<close> and the file
  manager with the four arguments \<open>(converted_audio, intent, variation, language)\<close>, as
  the source writes them.
\<close>

definition create_audio_file ::
  "'w BatchProcessor \<Rightarrow> 'w \<Rightarrow> string \<Rightarrow> pydict \<Rightarrow> (exn + string \<times> string) \<times> 'w" where
  "create_audio_file bp w variation metadata_dict =
     (case getitem metadata_dict ''language'' of
        Inl e \<Rightarrow> (Inl e, w)
      | Inr lang \<Rightarrow>
     (case generate_audio bp variation lang of
        Inl e \<Rightarrow> (Inl e, w)
      | Inr audio_data \<Rightarrow>
     (case convert_audio (environment bp) [PBytes audio_data, PStr ''wav''] of
        Inl e \<Rightarrow> (Inl e, w)
      | Inr converted_audio \<Rightarrow>
     (case getitem metadata_dict ''intent'' of
        Inl e \<Rightarrow> (Inl e, w)
      | Inr intent_name \<Rightarrow>
     (case getitem metadata_dict ''language'' of
        Inl e \<Rightarrow> (Inl e, w)
      | Inr lang' \<Rightarrow>
          file_manager_save_audio_file bp w
            [converted_audio, PStr intent_name, PStr variation, PStr lang'])))))"

text \<open>
  The loop of \<open>create_audio_files\<close>: an exception of the \<open>try\<close> block is logged and the
  loop goes on with the next variation; a saved file adds its pair of paths.
\<close>

fun create_audio_files ::
  "'w BatchProcessor \<Rightarrow> 'w \<Rightarrow> string list \<Rightarrow> pydict \<Rightarrow> (string \<times> string) list \<times> 'w" where
  "create_audio_files bp w [] metadata_dict = ([], w)"
| "create_audio_files bp w (variation # rest) metadata_dict =
     (case create_audio_file bp w variation metadata_dict of
        (Inl e, w') \<Rightarrow> create_audio_files bp w' rest metadata_dict
      | (Inr paths, w') \<Rightarrow>
          (case create_audio_files bp w' rest metadata_dict of
             (audio_files, w'') \<Rightarrow> (paths # audio_files, w'')))"

type_synonym outcome = "exn + string list \<times> (string \<times> string) list"

definition process_command :: "'w BatchProcessor \<Rightarrow> 'w \<Rightarrow> pydict \<Rightarrow> outcome \<times> 'w" where
  "process_command bp w command =
     (case generate_variations bp command of
        Inl e \<Rightarrow> (Inl e, w)
      | Inr variations \<Rightarrow>
          (case create_audio_files bp w variations command of
             (audio_files, w') \<Rightarrow> (Inr (variations, audio_files), w')))"

text \<open>
  The thread pool, whose constructor raises \<open>ValueError\<close> for a number of workers that is
  not positive. Each submitted command becomes a future holding the command and the
  outcome of \<open>_process_command\<close> on it; the workers are modelled by running the commands
  one after another on the shared store. \<open>as_completed\<close> then hands the futures to the
  collecting loop in an order of its own, which is a parameter of \<open>process_batch\<close>.
\<close>

fun submit_all :: "'w BatchProcessor \<Rightarrow> 'w \<Rightarrow> pydict list \<Rightarrow> (pydict \<times> outcome) list \<times> 'w" where
  "submit_all bp w [] = ([], w)"
| "submit_all bp w (command # rest) =
     (case process_command bp w command of
        (result, w') \<Rightarrow>
          (case submit_all bp w' rest of
             (futures, w'') \<Rightarrow> ((command, result) # futures, w'')))"

record results =
  total_commands :: nat
  successful_variations :: nat
  successful_audio_files :: nat
  errors :: "(pydict \<times> string) list"

text \<open>
  The collecting loop: \<open>future.result()\<close> either returns the pair that is counted, or
  re-raises the worker's exception, which appends one entry \<open>(command, str(e))\<close>.
\<close>

fun collect :: "results \<Rightarrow> (pydict \<times> outcome) list \<Rightarrow> results" where
  "collect res [] = res"
| "collect res ((command, Inr (variations, audio_files)) # rest) =
     collect (res\<lparr> successful_variations := successful_variations res + length variations,
                   successful_audio_files := successful_audio_files res + length audio_files \<rparr>)
             rest"
| "collect res ((command, Inl e) # rest) =
     collect (res\<lparr> errors := errors res @ [(command, message e)] \<rparr>) rest"

definition process_batch ::
  "'w BatchProcessor \<Rightarrow> ((pydict \<times> outcome) list \<Rightarrow> (pydict \<times> outcome) list) \<Rightarrow>
   'w \<Rightarrow> string \<Rightarrow> nat \<Rightarrow> (exn + results) \<times> 'w" where
  "process_batch bp as_completed w input_file skip_header =
     (case validate_file bp input_file of
        Inl e \<Rightarrow> (Inl e, w)
      | Inr valid \<Rightarrow>
          if \<not> valid then (Inl (Exn ValueError (''Invalid input file: '' @ input_file)), w)
          else
            (case process_file bp input_file skip_header of
               Inl e \<Rightarrow> (Inl e, w)
             | Inr commands \<Rightarrow>
                 if max_workers bp \<le> 0 then
                   (Inl (Exn ValueError ''max_workers must be greater than 0''), w)
                 else
                 (case submit_all bp w commands of
                    (futures, w') \<Rightarrow>
                      (Inr (collect \<lparr> total_commands = length commands,
                                      successful_variations = 0,
                                      successful_audio_files = 0,
                                      errors = [] \<rparr>
                                    (as_completed futures)), w'))))"

section \<open>InputProcessor (backend/src/core/input\_processor.py)\<close>

definition SUPPORTED_LANGUAGES :: "string list" where
  "SUPPORTED_LANGUAGES = [''korean'', ''english'', ''japanese'']"

text \<open>The constructor reads the supported languages from the application configuration;
  they are the module constant \<open>SUPPORTED_LANGUAGES\<close>. An input processor runs in an
  interpreter, whose character tables its string methods use.\<close>

record InputProcessor =
  supported_languages :: "string list"
  text_tables :: unicode

definition InputProcessor_init :: "unicode \<Rightarrow> InputProcessor" where
  "InputProcessor_init u = \<lparr> supported_languages = SUPPORTED_LANGUAGES, text_tables = u \<rparr>"

definition map_intent :: "InputProcessor \<Rightarrow> string \<Rightarrow> string \<Rightarrow> string" where
  "map_intent self phrase intent_column =
     str_upper (text_tables self) (str_strip (text_tables self) intent_column)"

text \<open>
  \<open>_sanitize_phrase\<close>: first \<open>' '.join(phrase.split())\<close>, then the characters that are
  neither alphanumeric nor whitespace are dropped, in this order.
\<close>

definition sanitize_phrase :: "unicode \<Rightarrow> string \<Rightarrow> string" where
  "sanitize_phrase u phrase =
     (let sanitized = str_join '' '' (str_split u phrase)
      in filter (\<lambda>char. isalnum u char \<or> isspace u char) sanitized)"

text \<open>
  \<open>validate_row\<close> on a row with string cells. The Command it returns is the dictionary
  with the keys \<open>intent\<close>, \<open>phrase\<close> and \<open>language\<close>, which is also the form in which a
  Command is handed on and can be read back as a row.
\<close>

definition validate_row :: "InputProcessor \<Rightarrow> pydict \<Rightarrow> exn + pydict" where
  "validate_row self row =
     (case getitem row ''phrase'' of
        Inl e \<Rightarrow> Inl e
      | Inr row_phrase \<Rightarrow>
     (case getitem row ''intent'' of
        Inl e \<Rightarrow> Inl e
      | Inr row_intent \<Rightarrow>
     (case getitem row ''language'' of
        Inl e \<Rightarrow> Inl e
      | Inr row_language \<Rightarrow>
          (let intent = map_intent self row_phrase row_intent;
               language = str_lower (text_tables self) row_language;
               phrase = sanitize_phrase (text_tables self) row_phrase
           in if language \<notin> set (supported_languages self) then
                Inl (Exn ValidationError (''Unsupported language: '' @ language))
              else if intent = [] \<or> phrase = [] then
                Inl (Exn ValidationError ''Intent and phrase cannot be empty'')
              else Inr [(''intent'', intent), (''phrase'', phrase), (''language'', language)]))))"

section \<open>FileManager (backend/src/core/file\_manager.py)\<close>

text \<open>
  The S3 client is the \<open>boto3\<close> client the constructor creates, with the remote store
  \<open>'s\<close> as its state: \<open>upload_file\<close> takes the content of the local file, the bucket, the
  key and the metadata, \<open>delete_object\<close> the bucket and the key; either may raise.
  \<open>convert_to_wav\<close> is the name the module imports from the audio converter, which
  defines no function of that name: it is a parameter, working on the local file
  system.
\<close>

record 's s3_client =
  upload_file :: "'s \<Rightarrow> string \<Rightarrow> string \<Rightarrow> string \<Rightarrow> pydict \<Rightarrow> (exn + unit) \<times> 's"
  delete_object :: "'s \<Rightarrow> string \<Rightarrow> string \<Rightarrow> (exn + unit) \<times> 's"

record 's world =
  disk :: filesystem
  remote :: 's

record 's FileManager =
  local_base_path :: Path
  bucket_name :: string
  s3_client :: "'s s3_client"
  convert_to_wav :: "filesystem \<Rightarrow> string \<Rightarrow> string \<Rightarrow> (exn + unit) \<times> filesystem"

text \<open>\<open>_generate_file_path\<close>: three components, the last one the file name
  \<open><variation>_<voice_id>.wav\<close> with \<open>default\<close> for a missing voice id.\<close>

definition generate_file_path :: "pydict \<Rightarrow> exn + Path" where
  "generate_file_path md =
     (case getitem md ''language'' of
        Inl e \<Rightarrow> Inl e
      | Inr language \<Rightarrow>
     (case getitem md ''intent'' of
        Inl e \<Rightarrow> Inl e
      | Inr intent \<Rightarrow>
     (case getitem md ''variation'' of
        Inl e \<Rightarrow> Inl e
      | Inr variation \<Rightarrow>
          Inr (Path_of_parts [language, intent,
                 variation @ ''_'' @ dict_get md ''voice_id'' ''default'' @ ''.wav'']))))"

text \<open>The last step of \<open>save_audio_file\<close>: the upload of the local file and the return.\<close>

definition upload_and_return ::
  "'s FileManager \<Rightarrow> 's world \<Rightarrow> Path \<Rightarrow> string \<Rightarrow> pydict \<Rightarrow> (exn + string \<times> string) \<times> 's world" where
  "upload_and_return self w local_path s3_path md =
     (case disk w local_path of
        Some (File content) \<Rightarrow>
          (case upload_file (s3_client self) (remote w) content (bucket_name self) s3_path md of
             (Inl e, s') \<Rightarrow> (Inl e, w\<lparr> remote := s' \<rparr>)
           | (Inr _, s') \<Rightarrow> (Inr (path_str local_path, s3_path), w\<lparr> remote := s' \<rparr>))
      | _ \<Rightarrow> (Inl (Exn OSError ''No such file or directory''), w))"

definition save_audio_file ::
  "'s FileManager \<Rightarrow> 's world \<Rightarrow> string \<Rightarrow> pydict \<Rightarrow> (exn + string \<times> string) \<times> 's world" where
  "save_audio_file self w audio_data md =
     (case generate_file_path md of
        Inl e \<Rightarrow> (Inl e, w)
      | Inr relative_path \<Rightarrow>
     (case getitem md ''language'' of
        Inl e \<Rightarrow> (Inl e, w)
      | Inr language \<Rightarrow>
     (case getitem md ''intent'' of
        Inl e \<Rightarrow> (Inl e, w)
      | Inr intent \<Rightarrow>
     (let local_path = joinpath (local_base_path self) relative_path;
          s3_path = language @ ''/'' @ intent @ ''/'' @ path_name relative_path
      in
     (case mkdir_parents (disk w) (path_parent local_path) of
        Inl e \<Rightarrow> (Inl e, w)
      | Inr fs1 \<Rightarrow>
     (case write_bytes fs1 local_path audio_data of
        Inl e \<Rightarrow> (Inl e, w\<lparr> disk := fs1 \<rparr>)
      | Inr fs2 \<Rightarrow>
          if ascii_lower (path_suffix local_path) \<noteq> ''.wav'' then
            (case with_suffix local_path ''.wav'' of
               Inl e \<Rightarrow> (Inl e, w\<lparr> disk := fs2 \<rparr>)
             | Inr wav_path \<Rightarrow>
                 (case convert_to_wav self fs2 (path_str local_path) (path_str wav_path) of
                    (Inl e, fs3) \<Rightarrow> (Inl e, w\<lparr> disk := fs3 \<rparr>)
                  | (Inr _, fs3) \<Rightarrow>
                      upload_and_return self (w\<lparr> disk := fs3 \<rparr>) wav_path
                        (rsplit_dot_head s3_path @ ''.wav'') md))
          else upload_and_return self (w\<lparr> disk := fs2 \<rparr>) local_path s3_path md))))))"


section \<open>S3Storage (database/src/file\_storage/s3\_storage.py)\<close>



section \<open>PathGenerator (database/src/utils/path\_generator.py)\<close>

text \<open>
  \<open>VALID_PATH_CHARS = re.compile(r'[^a-zA-Z0-9_-]')\<close>: the pattern matches exactly the
  characters outside the class; \<open>in_valid_class\<close> is membership in the class itself.
\<close>

definition in_valid_class :: "char \<Rightarrow> bool" where
  "in_valid_class c \<longleftrightarrow> c \<in> set (ascii_lowercase @ ascii_uppercase @ digits @ ''_-'')"

text \<open>\<open>VALID_PATH_CHARS.sub('-', component)\<close>: every matching character becomes a hyphen.\<close>

definition VALID_PATH_CHARS_sub :: "string \<Rightarrow> string" where
  "VALID_PATH_CHARS_sub component =
     map (\<lambda>c. if in_valid_class c then c else CHR ''-'') component"

definition sanitize_path_component :: "string \<Rightarrow> string" where
  "sanitize_path_component component =
     str_strip_chars ''-'' (ascii_lower (VALID_PATH_CHARS_sub component))"

text \<open>
  \<open>StorageConfig\<close> (database/src/config/storage\_config.py). The bucket name and the local
  root (\<open>Path.home() / 'femtosense' / 'voice_commands'\<close>) come from the environment; every template of \<open>FILE_STRUCTURE\<close> is a single
  placeholder, so \<open>template.format(name=x)\<close> is \<open>x\<close>.
\<close>

record StorageConfig =
  s3_bucket :: string
  aws_region :: string
  local_root :: Path

definition get_s3_path :: "StorageConfig \<Rightarrow> string \<Rightarrow> string \<Rightarrow> string \<Rightarrow> string" where
  "get_s3_path cfg language intent variation =
     s3_bucket cfg @ ''/'' @ language @ ''/'' @ intent @ ''/'' @ variation"

definition get_local_path :: "StorageConfig \<Rightarrow> string \<Rightarrow> string \<Rightarrow> string \<Rightarrow> Path" where
  "get_local_path cfg language intent variation =
     path_div (path_div (path_div (local_root cfg) language) intent) variation"

record VoiceCommand =
  phrase :: string
  intent :: string
  language :: string

definition generate_local_path :: "StorageConfig \<Rightarrow> VoiceCommand \<Rightarrow> string \<Rightarrow> string \<Rightarrow> Path" where
  "generate_local_path cfg voice_command variation_id voice_id =
     (let language' = sanitize_path_component (language voice_command);
          intent' = sanitize_path_component (intent voice_command);
          variation = sanitize_path_component variation_id;
          voice = sanitize_path_component voice_id
      in path_div (get_local_path cfg language' intent' variation) (voice @ ''.wav''))"

definition generate_s3_path :: "StorageConfig \<Rightarrow> VoiceCommand \<Rightarrow> string \<Rightarrow> string \<Rightarrow> string" where
  "generate_s3_path cfg voice_command variation_id voice_id =
     (let language' = sanitize_path_component (language voice_command);
          intent' = sanitize_path_component (intent voice_command);
          variation = sanitize_path_component variation_id;
          voice = sanitize_path_component voice_id
      in get_s3_path cfg language' intent' variation @ ''/'' @ voice @ ''.wav'')"

text \<open>The module's global instance: \<open>StorageConfig()\<close> with the default environment and the
  home directory \<open>/home\<close>.\<close>

definition storage_config :: StorageConfig where
  "storage_config = \<lparr> s3_bucket = ''femtosense-voice-commands'', aws_region = ''us-west-2'',
                      local_root = \<lparr> anchor = ''/'',
                                     segments = [''home'', ''femtosense'', ''voice_commands''] \<rparr> \<rparr>"

subsection \<open>The shape of a canonical relative path\<close>

text \<open>
  The regular expression \<^verbatim>\<open>^[a-z0-9_-]+/[a-z0-9_-]+/[a-z0-9_-]+/[a-z0-9_-]+\.wav$\<close>, as a
  scanner. Neither \<open>/\<close> nor \<open>.\<close> is in the class, so the longest run of class characters
  is the only possible match of each \<^verbatim>\<open>[a-z0-9_-]+\<close>.
\<close>

definition canon_char :: "char \<Rightarrow> bool" where
  "canon_char c \<longleftrightarrow> c \<in> set (ascii_lowercase @ digits @ ''_-'')"

fun scan_segments :: "nat \<Rightarrow> string \<Rightarrow> bool" where
  "scan_segments 0 s =
     (takeWhile canon_char s \<noteq> [] \<and> dropWhile canon_char s = ''.wav'')"
| "scan_segments (Suc n) s =
     (takeWhile canon_char s \<noteq> [] \<and>
      (case dropWhile canon_char s of
         [] \<Rightarrow> False
       | c # r \<Rightarrow> c = CHR ''/'' \<and> scan_segments n r))"

definition matches_canonical :: "string \<Rightarrow> bool" where
  "matches_canonical p = scan_segments 3 p"

text \<open>A non-empty run of class characters: what \<^verbatim>\<open>[a-z0-9_-]+\<close> matches.\<close>

definition canon_segment :: "string \<Rightarrow> bool" where
  "canon_segment s \<longleftrightarrow> s \<noteq> [] \<and> list_all canon_char s"

section \<open>FileValidator (database/src/utils/file\_validator.py)\<close>

definition VALID_SAMPLE_RATES :: "int list" where
  "VALID_SAMPLE_RATES = [16000, 22050, 44100]"

definition MAX_FILE_SIZE :: nat where
  "MAX_FILE_SIZE = 10 * 1024 * 1024"

definition REQUIRED_CHANNELS :: int where
  "REQUIRED_CHANNELS = 1"

text \<open>
  The names bound at module level: the imports of lines 1 to 8 (\<open>wave\<close>, \<open>Path\<close>, \<open>Tuple\<close>,
  \<open>List\<close>, \<open>os\<close>, \<open>AudioFile\<close>, \<open>VoiceCommand\<close>, \<open>StorageConfig\<close>), the three constants and
  the class. \<open>BytesIO\<close> is not among them.
\<close>

definition file_validator_globals :: "string list" where
  "file_validator_globals =
     [''wave'', ''Path'', ''Tuple'', ''List'', ''os'', ''AudioFile'', ''VoiceCommand'',
      ''StorageConfig'', ''VALID_SAMPLE_RATES'', ''MAX_FILE_SIZE'', ''REQUIRED_CHANNELS'',
      ''FileValidator'']"

text \<open>
  What \<open>wave.open(stream, 'rb')\<close> gives for a payload is the standard library's business:
  it is a parameter, returning the header it parsed or raising (\<open>wave.Error\<close> for a
  payload that is no WAV file).
\<close>

record wave_read =
  getframerate :: int
  getnchannels :: int

record Metadata =
  file_format :: string
  file_size :: nat
  sample_rate :: int

record AudioFile =
  data :: string
  metadata :: Metadata

text \<open>
  \<open>wave.open(BytesIO(wav_data), 'rb')\<close> evaluates the argument \<open>BytesIO(wav_data)\<close> first,
  which starts with the lookup of the name \<open>BytesIO\<close>. The handler is
  \<open>except wave.Error\<close>: any other exception leaves the function.
\<close>

definition validate_wav_format :: "(string \<Rightarrow> exn + wave_read) \<Rightarrow> string \<Rightarrow> exn + (bool \<times> string)" where
  "validate_wav_format wave_open wav_data =
     (let body =
        (case lookup_global file_validator_globals ''BytesIO'' of
           Inl e \<Rightarrow> Inl e
         | Inr _ \<Rightarrow>
            (case wave_open wav_data of
               Inl e \<Rightarrow> Inl e
             | Inr wav_file \<Rightarrow>
                 if getframerate wav_file \<notin> set VALID_SAMPLE_RATES then
                   Inr (False, ''Invalid sample rate: '' @ str_of_int (getframerate wav_file))
                 else if getnchannels wav_file \<noteq> REQUIRED_CHANNELS then
                   Inr (False, ''Invalid number of channels: ''
                                 @ str_of_int (getnchannels wav_file))
                 else Inr (True, ''WAV format is valid'')))
      in case body of
           Inl e \<Rightarrow> if exn_class e = WaveError then Inr (False, ''Invalid WAV file format'')
                    else Inl e
         | Inr r \<Rightarrow> Inr r)"

definition validate_audio_file :: "(string \<Rightarrow> exn + wave_read) \<Rightarrow> AudioFile \<Rightarrow> exn + bool" where
  "validate_audio_file wave_open audio_file =
     (if length (data audio_file) > MAX_FILE_SIZE then Inr False
      else
        (case validate_wav_format wave_open (data audio_file) of
           Inl e \<Rightarrow> Inl e
         | Inr (is_valid_wav, _) \<Rightarrow>
             if \<not> is_valid_wav then Inr False
             else if ascii_lower (file_format (metadata audio_file)) \<noteq> ''wav'' then Inr False
             else if file_size (metadata audio_file) \<noteq> length (data audio_file) then Inr False
             else if sample_rate (metadata audio_file) \<notin> set VALID_SAMPLE_RATES then Inr False
             else Inr True))"

section \<open>Test doubles\<close>

text \<open>
  The doubles of backend/tests/test\_batch\_processor.py as values: four workers; a file
  manager whose
  \<open>validate_file\<close> accepts the input file and whose \<open>save_audio_file\<close>, once entered,
  returns \<open>("local_path", "s3_path")\<close> without touching the store; an input processor
  that returns the given commands; an operating system on which every path exists and
  FFmpeg succeeds. The interpreter's character tables are left open: the doubles are
  given for every interpreter.
\<close>

definition test_os :: os_env where
  "test_os = \<lparr> os_path_exists = (\<lambda>_. True), run_ffmpeg = (\<lambda>_ _ _ _ _. Inr 0) \<rparr>"

definition test_processor :: "unicode \<Rightarrow> pydict list \<Rightarrow> unit BatchProcessor" where
  "test_processor tables commands =
     BatchProcessor_init 4 (\<lambda>_. Inr True) (\<lambda>_ _. Inr commands)
       (\<lambda>w _ _. (Inr (''local_path'', ''s3_path''), w)) test_os tables"

definition lights_on :: pydict where
  "lights_on = [(''intent'', ''LIGHTS_ON''), (''phrase'', ''turn on the lights''),
                (''language'', ''english'')]"

definition lights :: pydict where
  "lights = [(''intent'', ''LIGHTS''), (''phrase'', ''turn on the lights''),
             (''language'', ''english'')]"

definition weather :: pydict where
  "weather = [(''intent'', ''WEATHER''), (''phrase'', ''what is the weather like''),
              (''language'', ''english'')]"

text \<open>A synthesis service that raises for every text, and a generation service that
  raises for one phrase.\<close>

definition failing_generate_audio :: "string \<Rightarrow> string \<Rightarrow> exn + string" where
  "failing_generate_audio utterance lang = Inl (Exn ServiceError ''synthesis failed'')"

definition flaky_call_gpt_api :: "string \<Rightarrow> exn + string list" where
  "flaky_call_gpt_api p =
     (if p = ''what is the weather like'' then Inl (Exn ServiceError ''Test error'')
      else placeholder_call_gpt_api p)"






section \<open>Properties of the path generator\<close>

lemmas char_tables = ascii_lowercase_def ascii_uppercase_def digits_def

lemma lower_char_canon: "in_valid_class c \<Longrightarrow> canon_char (lower_char c)"
  by (auto simp: in_valid_class_def canon_char_def lower_char_def char_tables)

lemma canon_char_hyphen: "canon_char (lower_char CHR ''-'')"
  by (simp add: canon_char_def lower_char_def char_tables)

lemma not_canon_slash: "\<not> canon_char CHR ''/''"
  by (simp add: canon_char_def char_tables)

lemma not_canon_dot: "\<not> canon_char CHR ''.''"
  by (simp add: canon_char_def char_tables)

lemma set_str_strip_chars: "set (str_strip_chars chars s) \<subseteq> set s"
proof -
  have "set (dropWhile (\<lambda>c. c \<in> set chars) (rev (dropWhile (\<lambda>c. c \<in> set chars) s)))
          \<subseteq> set (rev (dropWhile (\<lambda>c. c \<in> set chars) s))"
    by (meson set_dropWhileD subsetI)
  also have "\<dots> \<subseteq> set s"
    using set_dropWhileD by fastforce
  finally show ?thesis by (simp add: str_strip_chars_def)
qed

lemma sanitize_canon: "list_all canon_char (sanitize_path_component s)"
proof -
  have "\<forall>c \<in> set (ascii_lower (VALID_PATH_CHARS_sub s)). canon_char c"
    by (auto simp: ascii_lower_def VALID_PATH_CHARS_sub_def lower_char_canon canon_char_hyphen
        intro: lower_char_canon) 
  then show ?thesis
    using set_str_strip_chars[of "''-''" "ascii_lower (VALID_PATH_CHARS_sub s)"]
    by (auto simp: sanitize_path_component_def list_all_iff)
qed

lemma takeWhile_run: "list_all P a \<Longrightarrow> \<not> P c \<Longrightarrow> takeWhile P (a @ c # r) = a"
  by (induction a) auto

lemma dropWhile_run: "list_all P a \<Longrightarrow> \<not> P c \<Longrightarrow> dropWhile P (a @ c # r) = c # r"
  by (induction a) auto

lemma scan_segments_step:
  "canon_segment a \<Longrightarrow> scan_segments (Suc n) (a @ ''/'' @ r) = scan_segments n r"
  by (simp add: canon_segment_def takeWhile_run dropWhile_run not_canon_slash)

lemma scan_segments_last: "canon_segment d \<Longrightarrow> scan_segments 0 (d @ ''.wav'')"
  by (simp add: canon_segment_def takeWhile_run dropWhile_run not_canon_dot)

lemma matches_canonical_intro:
  "canon_segment a \<Longrightarrow> canon_segment b \<Longrightarrow> canon_segment c \<Longrightarrow> canon_segment d \<Longrightarrow>
   matches_canonical (a @ ''/'' @ b @ ''/'' @ c @ ''/'' @ d @ ''.wav'')"
  unfolding matches_canonical_def numeral_3_eq_3
  using scan_segments_step scan_segments_last by simp

lemma scan_segments_0_elim:
  assumes "scan_segments 0 s" shows "\<exists>d. canon_segment d \<and> s = d @ ''.wav''"
proof -
  have "s = takeWhile canon_char s @ dropWhile canon_char s" by simp
  moreover have "list_all canon_char (takeWhile canon_char s)"
    by (simp add: list_all_iff) (meson set_takeWhileD)
  ultimately show ?thesis using assms
    by (metis canon_segment_def scan_segments.simps(1))
qed

lemma scan_segments_Suc_elim:
  assumes "scan_segments (Suc n) s"
  shows "\<exists>a r. canon_segment a \<and> s = a @ ''/'' @ r \<and> scan_segments n r"
proof -
  have split: "s = takeWhile canon_char s @ dropWhile canon_char s" by simp
  have run: "list_all canon_char (takeWhile canon_char s)"
    by (simp add: list_all_iff) (meson set_takeWhileD)
  from assms obtain r where r: "dropWhile canon_char s = CHR ''/'' # r" "scan_segments n r"
    and ne: "takeWhile canon_char s \<noteq> []"
    by (auto split: list.splits)
  have "s = takeWhile canon_char s @ ''/'' @ r" using split r(1) by simp
  with run ne r(2) show ?thesis unfolding canon_segment_def by blast
qed

lemma matches_canonical_iff:
  "matches_canonical p \<longleftrightarrow>
     (\<exists>a b c d. canon_segment a \<and> canon_segment b \<and> canon_segment c \<and> canon_segment d \<and>
                p = a @ ''/'' @ b @ ''/'' @ c @ ''/'' @ d @ ''.wav'')"
proof
  assume "matches_canonical p"
  then have "scan_segments (Suc (Suc (Suc 0))) p"
    by (simp add: matches_canonical_def numeral_3_eq_3)
  then obtain a r1 where a: "canon_segment a" "p = a @ ''/'' @ r1" "scan_segments (Suc (Suc 0)) r1"
    using scan_segments_Suc_elim by blast
  then obtain b r2 where b: "canon_segment b" "r1 = b @ ''/'' @ r2" "scan_segments (Suc 0) r2"
    using scan_segments_Suc_elim by blast
  then obtain c r3 where c: "canon_segment c" "r2 = c @ ''/'' @ r3" "scan_segments 0 r3"
    using scan_segments_Suc_elim by blast
  then obtain d where d: "canon_segment d" "r3 = d @ ''.wav''"
    using scan_segments_0_elim by blast
  from a b c d show "\<exists>a b c d. canon_segment a \<and> canon_segment b \<and> canon_segment c \<and> canon_segment d \<and>
                p = a @ ''/'' @ b @ ''/'' @ c @ ''/'' @ d @ ''.wav''"
    by auto
next
  assume "\<exists>a b c d. canon_segment a \<and> canon_segment b \<and> canon_segment c \<and> canon_segment d \<and>
                p = a @ ''/'' @ b @ ''/'' @ c @ ''/'' @ d @ ''.wav''"
  then show "matches_canonical p" using matches_canonical_intro by blast
qed

lemma sanitize_segment:
  "sanitize_path_component s \<noteq> [] \<Longrightarrow> canon_segment (sanitize_path_component s)"
  by (simp add: canon_segment_def sanitize_canon)

lemmas sanitize_eval = sanitize_path_component_def str_strip_chars_def ascii_lower_def
  VALID_PATH_CHARS_sub_def in_valid_class_def lower_char_def char_tables

lemma split_on_no_separator: "sep \<notin> set s \<Longrightarrow> split_on sep s = [s]"
  by (induction s) auto

lemma Path_of_str_plain:
  assumes "CHR ''/'' \<notin> set s"
  shows "Path_of_str s = \<lparr> anchor = [],
                            segments = (if s = [] \<or> s = ''.'' then [] else [s]) \<rparr>"
proof -
  have "take 1 s \<noteq> ''/''" using assms by (cases s) auto
  moreover have "take 2 s \<noteq> ''//''" using assms by (cases s) auto
  ultimately show ?thesis
    using assms by (simp add: Path_of_str_def anchor_of_str_def split_on_no_separator)
qed

lemma path_div_plain:
  assumes "CHR ''/'' \<notin> set s"
  shows "path_div p s = (if s = [] \<or> s = ''.'' then p else p\<lparr> segments := segments p @ [s] \<rparr>)"
  using assms by (simp add: path_div_def joinpath_def Path_of_str_plain)

lemma sanitize_no_slash: "CHR ''/'' \<notin> set (sanitize_path_component s)"
  using sanitize_canon [of s] not_canon_slash by (auto simp: list_all_iff)

lemma sanitize_no_dot: "CHR ''.'' \<notin> set (sanitize_path_component s)"
  using sanitize_canon [of s] not_canon_dot by (auto simp: list_all_iff)

lemma generate_local_path_eq:
  "generate_local_path cfg vc variation_id voice_id =
     (local_root cfg)\<lparr> segments := segments (local_root cfg)
       @ filter (\<lambda>s. s \<noteq> []) (map sanitize_path_component [language vc, intent vc, variation_id])
       @ [sanitize_path_component voice_id @ ''.wav''] \<rparr>"
proof -
  have not_dot: "sanitize_path_component s \<noteq> ''.''" for s
    using sanitize_no_dot [of s] by auto
  have fname: "CHR ''/'' \<notin> set (sanitize_path_component voice_id @ ''.wav'')"
    using sanitize_no_slash by simp
  have fname_ne: "sanitize_path_component voice_id @ ''.wav'' \<noteq> ''.''" by simp
  show ?thesis
    unfolding generate_local_path_def get_local_path_def Let_def
    by (simp add: path_div_plain sanitize_no_slash not_dot fname fname_ne del: set_append)
qed

subsection \<open>C4: shape of the generated S3 path\<close>

text \<open>
  As stated, C4 fails on the code for two reasons, both visible at concrete inputs:
  \<open>generate_s3_path\<close> puts the bucket name in front of the four components, so its output
  has five; and a component such as \<open>???\<close> sanitises to the empty string, which leaves an
  empty segment even behind the bucket prefix.
\<close>

theorem generate_s3_path_not_canonical:
  "\<not> matches_canonical (generate_s3_path storage_config
        \<lparr>phrase = ''turn on the lights'', intent = ''LIGHTS_ON'', language = ''english''\<rparr>
        ''turn_on_the_lights'' ''Matt'')
   \<and> \<not> matches_canonical (drop (length (s3_bucket storage_config) + 1)
        (generate_s3_path storage_config
          \<lparr>phrase = ''turn on the lights'', intent = ''LIGHTS_ON'', language = ''english''\<rparr>
          ''???'' ''Matt''))"
  by (simp add: generate_s3_path_def get_s3_path_def storage_config_def sanitize_eval
      matches_canonical_def numeral_3_eq_3 canon_char_def)

text \<open>
  C4 (amended). \<open>generate_s3_path\<close> is a function of the configuration and the four-tuple
  alone. Whenever each of the four components sanitises to a non-empty string, its
  output is the bucket name, a slash, and then a relative path matching
  \<^verbatim>\<open>^[a-z0-9_-]+/[a-z0-9_-]+/[a-z0-9_-]+/[a-z0-9_-]+\.wav$\<close>.
\<close>

theorem generate_s3_path_shape:
  assumes "sanitize_path_component (language vc) \<noteq> []"
      and "sanitize_path_component (intent vc) \<noteq> []"
      and "sanitize_path_component variation_id \<noteq> []"
      and "sanitize_path_component voice_id \<noteq> []"
  shows "\<exists>rel. generate_s3_path cfg vc variation_id voice_id = s3_bucket cfg @ ''/'' @ rel
              \<and> matches_canonical rel"
proof -
  let ?rel = "sanitize_path_component (language vc) @ ''/'' @
              sanitize_path_component (intent vc) @ ''/'' @
              sanitize_path_component variation_id @ ''/'' @
              sanitize_path_component voice_id @ ''.wav''"
  have "generate_s3_path cfg vc variation_id voice_id = s3_bucket cfg @ ''/'' @ ?rel"
    by (simp add: generate_s3_path_def get_s3_path_def)
  moreover have "matches_canonical ?rel"
    using assms by (intro matches_canonical_intro sanitize_segment)
  ultimately show ?thesis by blast
qed

theorem generate_s3_path_shape_witness:
  "sanitize_path_component ''english'' \<noteq> [] \<and> sanitize_path_component ''LIGHTS_ON'' \<noteq> [] \<and>
   sanitize_path_component ''turn_on_the_lights'' \<noteq> [] \<and> sanitize_path_component ''Matt'' \<noteq> [] \<and>
   (\<exists>rel. generate_s3_path storage_config
        \<lparr>phrase = ''turn on the lights'', intent = ''LIGHTS_ON'', language = ''english''\<rparr>
        ''turn_on_the_lights'' ''Matt'' = ''femtosense-voice-commands/'' @ rel
      \<and> matches_canonical rel)"
proof -
  have ne: "sanitize_path_component ''english'' \<noteq> []" "sanitize_path_component ''LIGHTS_ON'' \<noteq> []"
    "sanitize_path_component ''turn_on_the_lights'' \<noteq> []" "sanitize_path_component ''Matt'' \<noteq> []"
    by (simp_all add: sanitize_eval)
  from generate_s3_path_shape [of "\<lparr>phrase = ''turn on the lights'', intent = ''LIGHTS_ON'',
      language = ''english''\<rparr>" "''turn_on_the_lights''" "''Matt''" storage_config] ne
  have "\<exists>rel. generate_s3_path storage_config
        \<lparr>phrase = ''turn on the lights'', intent = ''LIGHTS_ON'', language = ''english''\<rparr>
        ''turn_on_the_lights'' ''Matt'' = s3_bucket storage_config @ ''/'' @ rel
      \<and> matches_canonical rel"
    by simp
  then show ?thesis using ne by (simp add: storage_config_def)
qed

subsection \<open>C9: components that sanitise to the empty string\<close>

text \<open>
  As stated, C9 fails on the code: nothing in the path generator raises. At the variation
  id \<open>???\<close> the sanitised component is empty, the S3 path comes back with an empty
  segment, and the local path comes back with one directory level fewer.
\<close>

theorem empty_component_not_rejected:
  "sanitize_path_component ''???'' = []
   \<and> generate_s3_path storage_config
        \<lparr>phrase = ''turn on the lights'', intent = ''LIGHTS_ON'', language = ''english''\<rparr>
        ''???'' ''Matt'' = ''femtosense-voice-commands/english/lights_on//matt.wav''
   \<and> generate_local_path storage_config
        \<lparr>phrase = ''turn on the lights'', intent = ''LIGHTS_ON'', language = ''english''\<rparr>
        ''???'' ''Matt''
       = \<lparr> anchor = ''/'',
           segments = [''home'', ''femtosense'', ''voice_commands'', ''english'', ''lights_on'',
                       ''matt.wav''] \<rparr>"
  by (simp add: generate_s3_path_def get_s3_path_def generate_local_path_eq
      storage_config_def sanitize_eval)

text \<open>
  C9 (amended). Path generation has no failure case: for every input, also one with a
  component that sanitises to the empty string, \<open>generate_s3_path\<close> returns the bucket
  name followed by the four sanitised components, each behind a slash, and
  \<open>generate_local_path\<close> returns the local root followed by the non-empty ones among
  language, intent and variation and the file name. When a sanitised component is empty
  the S3 path therefore contains an empty segment (a double slash, or the bare file
  name \<open>.wav\<close>).
\<close>

theorem empty_component_yields_path:
  assumes "[] \<in> set (map sanitize_path_component
                      [language vc, intent vc, variation_id, voice_id])"
  shows "((\<exists>pre post. generate_s3_path cfg vc variation_id voice_id = pre @ ''//'' @ post)
          \<or> (\<exists>pre. generate_s3_path cfg vc variation_id voice_id = pre @ ''/.wav''))
       \<and> generate_local_path cfg vc variation_id voice_id =
           (local_root cfg)\<lparr> segments := segments (local_root cfg)
             @ filter (\<lambda>s. s \<noteq> [])
                 (map sanitize_path_component [language vc, intent vc, variation_id])
             @ [sanitize_path_component voice_id @ ''.wav''] \<rparr>"
proof -
  let ?l = "sanitize_path_component (language vc)"
  let ?i = "sanitize_path_component (intent vc)"
  let ?v = "sanitize_path_component variation_id"
  let ?w = "sanitize_path_component voice_id"
  let ?p = "generate_s3_path cfg vc variation_id voice_id"
  have p: "?p = s3_bucket cfg @ ''/'' @ ?l @ ''/'' @ ?i @ ''/'' @ ?v @ ''/'' @ ?w @ ''.wav''"
    by (simp add: generate_s3_path_def get_s3_path_def)
  have local: "generate_local_path cfg vc variation_id voice_id =
           (local_root cfg)\<lparr> segments := segments (local_root cfg)
             @ filter (\<lambda>s. s \<noteq> [])
                 (map sanitize_path_component [language vc, intent vc, variation_id])
             @ [sanitize_path_component voice_id @ ''.wav''] \<rparr>"
    by (rule generate_local_path_eq)
  from assms consider "?l = []" | "?i = []" | "?v = []" | "?w = []" by auto
  then have "(\<exists>pre post. ?p = pre @ ''//'' @ post) \<or> (\<exists>pre. ?p = pre @ ''/.wav'')"
  proof cases
    case 1
    then have "?p = s3_bucket cfg @ ''//'' @ (?i @ ''/'' @ ?v @ ''/'' @ ?w @ ''.wav'')"
      using p by simp
    then show ?thesis by blast
  next
    case 2
    then have "?p = (s3_bucket cfg @ ''/'' @ ?l) @ ''//'' @ (?v @ ''/'' @ ?w @ ''.wav'')"
      using p by simp
    then show ?thesis by blast
  next
    case 3
    then have "?p = (s3_bucket cfg @ ''/'' @ ?l @ ''/'' @ ?i) @ ''//'' @ (?w @ ''.wav'')"
      using p by simp
    then show ?thesis by blast
  next
    case 4
    then have "?p = (s3_bucket cfg @ ''/'' @ ?l @ ''/'' @ ?i @ ''/'' @ ?v) @ ''/.wav''"
      using p by simp
    then show ?thesis by blast
  qed
  with local show ?thesis by blast
qed

theorem empty_component_yields_path_witness:
  "[] \<in> set (map sanitize_path_component [''english'', ''LIGHTS_ON'', ''???'', ''Matt''])
   \<and> ((\<exists>pre post. generate_s3_path storage_config
          \<lparr>phrase = ''turn on the lights'', intent = ''LIGHTS_ON'', language = ''english''\<rparr>
          ''???'' ''Matt'' = pre @ ''//'' @ post)
      \<or> (\<exists>pre. generate_s3_path storage_config
          \<lparr>phrase = ''turn on the lights'', intent = ''LIGHTS_ON'', language = ''english''\<rparr>
          ''???'' ''Matt'' = pre @ ''/.wav''))"
proof -
  have h: "[] \<in> set (map sanitize_path_component [''english'', ''LIGHTS_ON'', ''???'', ''Matt''])"
    by (simp add: sanitize_eval)
  from empty_component_yields_path [of "\<lparr>phrase = ''turn on the lights'', intent = ''LIGHTS_ON'',
      language = ''english''\<rparr>" "''???''" "''Matt''" storage_config] h
  show ?thesis by simp
qed

section \<open>Properties of the file validator\<close>

lemma BytesIO_unbound:
  "lookup_global file_validator_globals ''BytesIO''
     = Inl (Exn NameError ''name BytesIO is not defined'')"
  by (simp add: lookup_global_def file_validator_globals_def)

lemma validate_wav_format_NameError:
  "validate_wav_format wave_open wav_data = Inl (Exn NameError ''name BytesIO is not defined'')"
  by (simp add: validate_wav_format_def BytesIO_unbound)

text \<open>
  C10. For every byte payload, whatever the \<open>wave\<close> module would make of it,
  \<open>validate_wav_format\<close> raises \<open>NameError\<close> (the handler for \<open>wave.Error\<close> does not
  catch it) and returns no pair; and for every audio file whose data is within the
  10 MB ceiling \<open>validate_audio_file\<close> raises that \<open>NameError\<close> instead of returning a
  bool.
\<close>

theorem validate_wav_format_raises:
  "(\<forall>wave_open wav_data.
        validate_wav_format wave_open wav_data
          = Inl (Exn NameError ''name BytesIO is not defined''))
   \<and> (\<forall>wave_open audio_file.
        length (data audio_file) \<le> MAX_FILE_SIZE \<longrightarrow>
        validate_audio_file wave_open audio_file
          = Inl (Exn NameError ''name BytesIO is not defined''))"
  by (simp add: validate_audio_file_def validate_wav_format_NameError)

theorem validate_wav_format_raises_witness:
  "length (data \<lparr>data = ''RIFF'', metadata = \<lparr>file_format = ''wav'', file_size = 4,
                                               sample_rate = 16000\<rparr>\<rparr>) \<le> MAX_FILE_SIZE
   \<and> validate_audio_file
        (\<lambda>_. Inr \<lparr>getframerate = 16000, getnchannels = 1\<rparr>)
        \<lparr>data = ''RIFF'', metadata = \<lparr>file_format = ''wav'', file_size = 4,
                                      sample_rate = 16000\<rparr>\<rparr>
       = Inl (Exn NameError ''name BytesIO is not defined'')
   \<and> validate_wav_format (\<lambda>_. Inl (Exn WaveError ''file does not start with RIFF id''))
        ''NOT_A_WAV_FILE''
       = Inl (Exn NameError ''name BytesIO is not defined'')"
proof -
  have small: "length (data \<lparr>data = ''RIFF'', metadata = \<lparr>file_format = ''wav'', file_size = 4,
                  sample_rate = 16000\<rparr>\<rparr>) \<le> MAX_FILE_SIZE"
    by (simp add: MAX_FILE_SIZE_def)
  from validate_wav_format_raises small show ?thesis by blast
qed

section \<open>Properties of the batch processor\<close>

lemma convert_audio_two_arguments:
  "convert_audio env [a, b]
     = Inl (Exn TypeError ''convert_audio() missing required positional arguments'')"
  by (simp add: convert_audio_def log_decorator_def bind_arguments_def)

lemma save_audio_file_four_arguments:
  "file_manager_save_audio_file bp w [a, b, c, d]
     = (Inl (Exn TypeError ''save_audio_file() takes fewer positional arguments than were given''), w)"
  by (simp add: file_manager_save_audio_file_def bind_arguments_def)

lemma create_audio_file_raises:
  "\<exists>e. create_audio_file bp w variation md = (Inl e, w)"
  by (simp add: create_audio_file_def convert_audio_two_arguments split: sum.splits)

lemma create_audio_file_TypeError:
  assumes "getitem md ''language'' = Inr lang" and "generate_audio bp variation lang = Inr audio"
  shows "create_audio_file bp w variation md
           = (Inl (Exn TypeError ''convert_audio() missing required positional arguments''), w)"
  using assms by (simp add: create_audio_file_def convert_audio_two_arguments)

lemma create_audio_files_nothing:
  "create_audio_files bp w variations md = ([], w)"
proof (induction variations)
  case Nil
  show ?case by simp
next
  case (Cons v vs)
  obtain e where "create_audio_file bp w v md = (Inl e, w)"
    using create_audio_file_raises [of bp w v md] by auto
  with Cons show ?case by simp
qed

lemma process_command_eq:
  "process_command bp w command =
     (case generate_variations bp command of
        Inl e \<Rightarrow> Inl e | Inr variations \<Rightarrow> Inr (variations, []), w)"
  by (simp add: process_command_def create_audio_files_nothing split: sum.splits)

text \<open>No command reads or writes the store, so the order in which the workers run the
  commands does not matter.\<close>

lemma process_command_store:
  "process_command bp w command = (fst (process_command bp w0 command), w)"
  by (simp add: process_command_eq split: sum.splits)

lemma submit_all_eq:
  "submit_all bp w commands = (map (\<lambda>c. (c, fst (process_command bp w c))) commands, w)"
  by (induction commands) (simp_all add: process_command_eq split: sum.splits)

lemma collect_total: "total_commands (collect res fs) = total_commands res"
  by (induction res fs rule: collect.induct) simp_all

lemma collect_errors:
  "errors (collect res fs)
     = errors res @ map (\<lambda>f. (fst f, message (projl (snd f)))) (filter (\<lambda>f. isl (snd f)) fs)"
  by (induction res fs rule: collect.induct) simp_all

lemma collect_variations:
  "successful_variations (collect res fs)
     = successful_variations res
       + sum_list (map (\<lambda>f. length (fst (projr (snd f)))) (filter (\<lambda>f. \<not> isl (snd f)) fs))"
  by (induction res fs rule: collect.induct) simp_all

lemma collect_audio_files:
  "successful_audio_files (collect res fs)
     = successful_audio_files res
       + sum_list (map (\<lambda>f. length (snd (projr (snd f)))) (filter (\<lambda>f. \<not> isl (snd f)) fs))"
  by (induction res fs rule: collect.induct) simp_all

lemma collect_errors_mset:
  "mset (errors (collect res fs))
     = mset (errors res)
       + image_mset (\<lambda>f. (fst f, message (projl (snd f)))) (filter_mset (\<lambda>f. isl (snd f)) (mset fs))"
  by (simp add: collect_errors)

lemma collect_variations_mset:
  "successful_variations (collect res fs)
     = successful_variations res
       + sum_mset (image_mset (\<lambda>f. length (fst (projr (snd f))))
                              (filter_mset (\<lambda>f. \<not> isl (snd f)) (mset fs)))"
proof -
  have "sum_list (map (\<lambda>f. length (fst (projr (snd f)))) (filter (\<lambda>f. \<not> isl (snd f)) fs))
      = sum_mset (mset (map (\<lambda>f. length (fst (projr (snd f)))) (filter (\<lambda>f. \<not> isl (snd f)) fs)))"
    by (simp only: sum_mset_sum_list)
  then show ?thesis by (simp add: collect_variations)
qed

lemma collect_audio_files_mset:
  "successful_audio_files (collect res fs)
     = successful_audio_files res
       + sum_mset (image_mset (\<lambda>f. length (snd (projr (snd f))))
                              (filter_mset (\<lambda>f. \<not> isl (snd f)) (mset fs)))"
proof -
  have "sum_list (map (\<lambda>f. length (snd (projr (snd f)))) (filter (\<lambda>f. \<not> isl (snd f)) fs))
      = sum_mset (mset (map (\<lambda>f. length (snd (projr (snd f)))) (filter (\<lambda>f. \<not> isl (snd f)) fs)))"
    by (simp only: sum_mset_sum_list)
  then show ?thesis by (simp add: collect_audio_files)
qed

text \<open>What a batch run returns, in terms of the outcome of each submitted command.\<close>

lemma process_batch_summary:
  assumes perm: "\<And>fs. mset (as_completed fs) = mset fs"
      and valid: "validate_file bp input_file = Inr True"
      and rows: "process_file bp input_file skip_header = Inr commands"
      and workers: "0 < max_workers bp"
  shows "\<exists>res. process_batch bp as_completed w input_file skip_header = (Inr res, w)
      \<and> total_commands res = length commands
      \<and> mset (errors res)
          = image_mset (\<lambda>c. (c, message (projl (fst (process_command bp w c)))))
              (filter_mset (\<lambda>c. isl (fst (process_command bp w c))) (mset commands))
      \<and> successful_variations res
          = sum_mset (image_mset (\<lambda>c. length (fst (projr (fst (process_command bp w c)))))
              (filter_mset (\<lambda>c. \<not> isl (fst (process_command bp w c))) (mset commands)))
      \<and> successful_audio_files res
          = sum_mset (image_mset (\<lambda>c. length (snd (projr (fst (process_command bp w c)))))
              (filter_mset (\<lambda>c. \<not> isl (fst (process_command bp w c))) (mset commands)))"
proof -
  let ?out = "\<lambda>c. fst (process_command bp w c)"
  let ?futures = "map (\<lambda>c. (c, ?out c)) commands"
  let ?init = "\<lparr> total_commands = length commands, successful_variations = 0,
                 successful_audio_files = 0, errors = [] \<rparr>"
  let ?res = "collect ?init (as_completed ?futures)"
  have run: "process_batch bp as_completed w input_file skip_header = (Inr ?res, w)"
    using workers by (simp add: process_batch_def valid rows submit_all_eq)
  have m: "mset (as_completed ?futures) = image_mset (\<lambda>c. (c, ?out c)) (mset commands)"
    by (simp add: perm)
  have e: "mset (errors ?res) = image_mset (\<lambda>c. (c, message (projl (?out c))))
              (filter_mset (\<lambda>c. isl (?out c)) (mset commands))"
    unfolding collect_errors_mset m
    by (simp add: filter_mset_image_mset image_mset.compositionality comp_def)
  have v: "successful_variations ?res = sum_mset (image_mset (\<lambda>c. length (fst (projr (?out c))))
              (filter_mset (\<lambda>c. \<not> isl (?out c)) (mset commands)))"
    unfolding collect_variations_mset m
    by (simp add: filter_mset_image_mset image_mset.compositionality comp_def)
  have a: "successful_audio_files ?res = sum_mset (image_mset (\<lambda>c. length (snd (projr (?out c))))
              (filter_mset (\<lambda>c. \<not> isl (?out c)) (mset commands)))"
    unfolding collect_audio_files_mset m
    by (simp add: filter_mset_image_mset image_mset.compositionality comp_def)
  show ?thesis using run e v a by (simp add: collect_total)
qed


lemma placeholder_variations:
  "placeholder_call_gpt_api p =
     Inr [p @ '' (variation 1)'', p @ '' (variation 2)'', p @ '' (variation 3)'',
          p @ '' (variation 4)'', p @ '' (variation 5)'']"
proof -
  have r: "[1..<6] = [1, 2, 3, 4, 5::nat]" by code_simp
  have d: "str_of_nat 1 = ''1''" "str_of_nat 2 = ''2''" "str_of_nat 3 = ''3''"
    "str_of_nat 4 = ''4''" "str_of_nat 5 = ''5''"
    by code_simp+
  show ?thesis unfolding placeholder_call_gpt_api_def r by (simp only: d list.map append.simps)
qed

lemmas fixture_defs = test_processor_def BatchProcessor_init_def test_os_def lights_on_def
  lights_def weather_def failing_generate_audio_def flaky_call_gpt_api_def

lemmas text_eval = str_lower_def is_ascii_def lower_char_def ascii_lowercase_def ascii_uppercase_def

text \<open>
  The filter folds case beyond ASCII as the interpreter does: where \<open>lower()\<close> maps the
  capital e with acute (code point 201) to the small one (code point 233) and leaves
  the small one as it is, a variation \<open>CAF. au lait\<close> with the capital letter in the
  place of the dot is kept for the intent \<open>caf.\<close> with the small letter there.
\<close>

lemma validate_variations_beyond_ascii:
  assumes "lower_beyond (interpreter bp) (CHR 201) = [CHR 233]"
      and "lower_beyond (interpreter bp) (CHR 233) = [CHR 233]"
  shows "validate_variations bp [''CAF'' @ [CHR 201] @ '' au lait''] (''caf'' @ [CHR 233])
           = [''CAF'' @ [CHR 201] @ '' au lait'']"
  using assms by (simp add: validate_variations_def text_eval)


lemma errors_commands:
  assumes "mset (errors res) = image_mset (\<lambda>c. (c, g c)) (filter_mset P (mset commands))"
  shows "fst ` set (errors res) = {c \<in> set commands. P c}"
proof -
  have "set (errors res) = set_mset (mset (errors res))" by simp
  also have "\<dots> = (\<lambda>c. (c, g c)) ` {c \<in> set commands. P c}"
    unfolding assms by auto
  finally show ?thesis by (simp add: image_image)
qed

lemma test_lights_on_variations: "generate_variations (test_processor u cs) lights_on = Inr []"
  by (simp add: generate_variations_def getitem_def fixture_defs placeholder_variations
      validate_variations_def text_eval)

lemma test_lights_variations:
  "generate_variations ((test_processor u cs)\<lparr>generate_audio := failing_generate_audio\<rparr>) lights =
    Inr [''turn on the lights (variation 1)'', ''turn on the lights (variation 2)'',
     ''turn on the lights (variation 3)'', ''turn on the lights (variation 4)'',
     ''turn on the lights (variation 5)'']"
  by (simp add: generate_variations_def getitem_def fixture_defs placeholder_variations
      validate_variations_def text_eval)

lemma test_flaky_variations:
  "generate_variations ((test_processor u cs)\<lparr>call_gpt_api := flaky_call_gpt_api\<rparr>) weather
     = Inl (Exn ServiceError ''Test error'')"
  "generate_variations ((test_processor u cs)\<lparr>call_gpt_api := flaky_call_gpt_api\<rparr>) lights =
    Inr [''turn on the lights (variation 1)'', ''turn on the lights (variation 2)'',
     ''turn on the lights (variation 3)'', ''turn on the lights (variation 4)'',
     ''turn on the lights (variation 5)'']"
  by (simp_all add: generate_variations_def getitem_def fixture_defs placeholder_variations
      validate_variations_def text_eval)

subsection \<open>C3: create\_audio\_files stores nothing\<close>

text \<open>
  C3. For every non-empty list of variations and every metadata dictionary with the keys
  \<open>language\<close> and \<open>intent\<close>, \<open>create_audio_files\<close> returns the empty list and leaves the
  store as it was. Every iteration of its loop raises inside the \<open>try\<close> block; when
  the synthesis call returns audio (as the placeholder \<open>_generate_audio\<close> always does) the
  exception is the \<open>TypeError\<close> of calling \<open>convert_audio\<close> with two positional
  arguments, and the four-argument call of \<open>save_audio_file\<close> that follows in the source
  raises \<open>TypeError\<close> as well.
\<close>

theorem create_audio_files_returns_empty:
  assumes "variations \<noteq> []"
      and "getitem md ''language'' = Inr lang"
      and "getitem md ''intent'' = Inr intent_name"
  shows "create_audio_files bp w variations md = ([], w)
       \<and> (\<forall>v \<in> set variations. \<exists>e. create_audio_file bp w v md = (Inl e, w))
       \<and> (\<forall>v \<in> set variations. \<forall>audio. generate_audio bp v lang = Inr audio \<longrightarrow>
             (\<exists>text. create_audio_file bp w v md = (Inl (Exn TypeError text), w)))
       \<and> (\<forall>v converted. \<exists>text.
             file_manager_save_audio_file bp w [converted, PStr intent_name, PStr v, PStr lang]
               = (Inl (Exn TypeError text), w))"
  using assms
  by (simp add: create_audio_files_nothing create_audio_file_raises create_audio_file_TypeError
      save_audio_file_four_arguments)

theorem create_audio_files_returns_empty_witness:
  "\<forall>u. [''Turn on the lights'', ''Switch the lights on''] \<noteq> []
   \<and> getitem [(''intent'', ''LIGHTS_ON''), (''language'', ''en'')] ''language'' = Inr ''en''
   \<and> getitem [(''intent'', ''LIGHTS_ON''), (''language'', ''en'')] ''intent'' = Inr ''LIGHTS_ON''
   \<and> create_audio_files (test_processor u []) ()
        [''Turn on the lights'', ''Switch the lights on'']
        [(''intent'', ''LIGHTS_ON''), (''language'', ''en'')] = ([], ())
   \<and> create_audio_file (test_processor u []) () ''Turn on the lights''
        [(''intent'', ''LIGHTS_ON''), (''language'', ''en'')]
       = (Inl (Exn TypeError ''convert_audio() missing required positional arguments''), ())"
  (is "\<forall>u. ?W u")
proof
  fix u
  have k: "getitem [(''intent'', ''LIGHTS_ON''), (''language'', ''en'')] ''language'' = Inr ''en''"
    "getitem [(''intent'', ''LIGHTS_ON''), (''language'', ''en'')] ''intent'' = Inr ''LIGHTS_ON''"
    by (simp_all add: getitem_def)
  have g: "generate_audio (test_processor u []) ''Turn on the lights'' ''en''
             = Inr ''audio_data_placeholder''"
    by (simp add: fixture_defs placeholder_generate_audio_def)
  have "create_audio_files (test_processor u []) ()
          [''Turn on the lights'', ''Switch the lights on'']
          [(''intent'', ''LIGHTS_ON''), (''language'', ''en'')] = ([], ())"
    using create_audio_files_returns_empty [of "[''Turn on the lights'', ''Switch the lights on'']"
        "[(''intent'', ''LIGHTS_ON''), (''language'', ''en'')]" "''en''" "''LIGHTS_ON''"
        "test_processor u []" "()"] k
    by simp
  then show "?W u" using k g by (simp add: create_audio_file_TypeError)
qed

subsection \<open>C8: one terminal outcome for each command\<close>

text \<open>
  C8. When the input file is accepted and yields the commands \<open>commands\<close>, and the pool
  has a positive number of workers, the batch
  returns a result whose \<open>total_commands\<close> is their number. The commands of its error
  entries are, with multiplicity, exactly the submitted commands whose processing
  raised, so a command has at most one entry for each time it was submitted; and the
  two success counters add up the variations and audio files of exactly the other
  commands. Every submitted command is therefore either counted or listed as an error,
  never both.
\<close>

theorem process_batch_one_outcome_per_command:
  assumes "\<And>fs. mset (as_completed fs) = mset fs"
      and "validate_file bp input_file = Inr True"
      and "process_file bp input_file skip_header = Inr commands"
      and "0 < max_workers bp"
  shows "\<exists>res. process_batch bp as_completed w input_file skip_header = (Inr res, w)
      \<and> total_commands res = length commands
      \<and> mset (map fst (errors res))
          = filter_mset (\<lambda>c. isl (fst (process_command bp w c))) (mset commands)
      \<and> mset (map fst (errors res)) \<subseteq># mset commands
      \<and> successful_variations res
          = sum_mset (image_mset (\<lambda>c. length (fst (projr (fst (process_command bp w c)))))
              (filter_mset (\<lambda>c. \<not> isl (fst (process_command bp w c))) (mset commands)))
      \<and> successful_audio_files res
          = sum_mset (image_mset (\<lambda>c. length (snd (projr (fst (process_command bp w c)))))
              (filter_mset (\<lambda>c. \<not> isl (fst (process_command bp w c))) (mset commands)))
      \<and> length (errors res)
          + size (filter_mset (\<lambda>c. \<not> isl (fst (process_command bp w c))) (mset commands))
          = length commands"
proof -
  let ?out = "\<lambda>c. fst (process_command bp w c)"
  from process_batch_summary [OF assms, of w] obtain res where
    run: "process_batch bp as_completed w input_file skip_header = (Inr res, w)"
    and total: "total_commands res = length commands"
    and err: "mset (errors res) = image_mset (\<lambda>c. (c, message (projl (?out c))))
                (filter_mset (\<lambda>c. isl (?out c)) (mset commands))"
    and vars: "successful_variations res = sum_mset (image_mset (\<lambda>c. length (fst (projr (?out c))))
                (filter_mset (\<lambda>c. \<not> isl (?out c)) (mset commands)))"
    and files: "successful_audio_files res = sum_mset (image_mset (\<lambda>c. length (snd (projr (?out c))))
                (filter_mset (\<lambda>c. \<not> isl (?out c)) (mset commands)))"
    by blast
  have "mset (map fst (errors res)) = image_mset fst (mset (errors res))" by simp
  also have "\<dots> = filter_mset (\<lambda>c. isl (?out c)) (mset commands)"
    unfolding err by (simp add: image_mset.compositionality comp_def)
  finally have who: "mset (map fst (errors res)) = filter_mset (\<lambda>c. isl (?out c)) (mset commands)" .
  have sub: "mset (map fst (errors res)) \<subseteq># mset commands"
    unfolding who by simp
  have "length (errors res) = size (mset (map fst (errors res)))" by simp
  also have "\<dots> = size (filter_mset (\<lambda>c. isl (?out c)) (mset commands))"
    by (simp only: who)
  finally have "length (errors res) + size (filter_mset (\<lambda>c. \<not> isl (?out c)) (mset commands))
      = size (mset commands)"
    by (metis multiset_partition size_union)
  then have count: "length (errors res) + size (filter_mset (\<lambda>c. \<not> isl (?out c)) (mset commands))
      = length commands" by simp
  from run total who sub vars files count show ?thesis by blast
qed

theorem process_batch_one_outcome_per_command_witness:
  "\<forall>u. (\<forall>fs :: (pydict \<times> outcome) list. mset (rev fs) = mset fs)
   \<and> validate_file ((test_processor u [lights, weather])\<lparr>call_gpt_api := flaky_call_gpt_api\<rparr>)
        ''test_input.csv'' = Inr True
   \<and> process_file ((test_processor u [lights, weather])\<lparr>call_gpt_api := flaky_call_gpt_api\<rparr>)
        ''test_input.csv'' 0 = Inr [lights, weather]
   \<and> 0 < max_workers ((test_processor u [lights, weather])\<lparr>call_gpt_api := flaky_call_gpt_api\<rparr>)
   \<and> (\<exists>res. process_batch ((test_processor u [lights, weather])\<lparr>call_gpt_api := flaky_call_gpt_api\<rparr>)
               rev () ''test_input.csv'' 0 = (Inr res, ())
          \<and> total_commands res = 2
          \<and> mset (map fst (errors res)) = {#weather#}
          \<and> successful_variations res = 5)"
  (is "\<forall>u. ?W u")
proof
  fix u
  let ?bp = "(test_processor u [lights, weather])\<lparr>call_gpt_api := flaky_call_gpt_api\<rparr>"
  have p: "\<And>fs :: (pydict \<times> outcome) list. mset (rev fs) = mset fs" by simp
  have v: "validate_file ?bp ''test_input.csv'' = Inr True"
    by (simp add: test_processor_def BatchProcessor_init_def)
  have r: "process_file ?bp ''test_input.csv'' 0 = Inr [lights, weather]"
    by (simp add: test_processor_def BatchProcessor_init_def)
  have k: "0 < max_workers ?bp"
    by (simp add: test_processor_def BatchProcessor_init_def)
  have o: "fst (process_command ?bp () lights) =
      Inr ([''turn on the lights (variation 1)'', ''turn on the lights (variation 2)'',
     ''turn on the lights (variation 3)'', ''turn on the lights (variation 4)'',
     ''turn on the lights (variation 5)''], [])"
    "fst (process_command ?bp () weather) = Inl (Exn ServiceError ''Test error'')"
    by (simp_all add: process_command_eq test_flaky_variations)
  from process_batch_one_outcome_per_command [of rev ?bp "''test_input.csv''" 0 "[lights, weather]" "()", OF p v r k]
  obtain res where "process_batch ?bp rev () ''test_input.csv'' 0 = (Inr res, ())"
    "total_commands res = length [lights, weather]"
    "mset (map fst (errors res))
          = filter_mset (\<lambda>c. isl (fst (process_command ?bp () c))) (mset [lights, weather])"
    "successful_variations res
          = sum_mset (image_mset (\<lambda>c. length (fst (projr (fst (process_command ?bp () c)))))
              (filter_mset (\<lambda>c. \<not> isl (fst (process_command ?bp () c))) (mset [lights, weather])))"
    by blast
  then have "process_batch ?bp rev () ''test_input.csv'' 0 = (Inr res, ())
      \<and> total_commands res = 2 \<and> mset (map fst (errors res)) = {#weather#}
      \<and> successful_variations res = 5"
    by (simp add: o)
  then show "?W u" using v r k by auto
qed

subsection \<open>C2: a command whose variations are all filtered out\<close>

text \<open>
  As stated, C2 fails on the code: for the command with intent \<open>LIGHTS_ON\<close> and phrase
  \<open>turn on the lights\<close> none of the five generated variations contains \<open>lights_on\<close>, and the
  batch returns with an empty error list, in every interpreter (the texts are ASCII).
\<close>

theorem no_valid_variations_not_reported:
  "\<forall>u. validate_variations (test_processor u [lights_on])
      [''turn on the lights (variation 1)'', ''turn on the lights (variation 2)'',
       ''turn on the lights (variation 3)'', ''turn on the lights (variation 4)'',
       ''turn on the lights (variation 5)''] ''LIGHTS_ON'' = []
   \<and> process_batch (test_processor u [lights_on]) (\<lambda>fs. fs) () ''commands.csv'' 0
       = (Inr \<lparr> total_commands = 1, successful_variations = 0, successful_audio_files = 0,
                 errors = [] \<rparr>, ())"
  (is "\<forall>u. ?C u")
proof
  fix u
  have "validate_variations (test_processor u [lights_on])
      [''turn on the lights (variation 1)'', ''turn on the lights (variation 2)'',
       ''turn on the lights (variation 3)'', ''turn on the lights (variation 4)'',
       ''turn on the lights (variation 5)''] ''LIGHTS_ON'' = []"
    by (simp add: validate_variations_def fixture_defs text_eval)
  moreover have "process_batch (test_processor u [lights_on]) (\<lambda>fs. fs) () ''commands.csv'' 0
       = (Inr \<lparr> total_commands = 1, successful_variations = 0, successful_audio_files = 0,
                 errors = [] \<rparr>, ())"
  proof -
    have "validate_file (test_processor u [lights_on]) ''commands.csv'' = Inr True"
      and "process_file (test_processor u [lights_on]) ''commands.csv'' 0 = Inr [lights_on]"
      and "0 < max_workers (test_processor u [lights_on])"
      by (simp_all add: test_processor_def BatchProcessor_init_def)
    then show ?thesis
      by (simp add: process_batch_def submit_all_eq process_command_eq test_lights_on_variations)
  qed
  ultimately show "?C u" by blast
qed

text \<open>
  C2 (amended). For every command of a batch (the input file accepted and parsed, a
  positive number of workers) whose generated variations all fail the
  intent-preservation filter (no variation contains the lower-cased intent as a
  substring of its lower-cased text, both lowered by the \<open>lower()\<close> of the interpreter
  the processor runs in), processing the command returns no variation and no stored
  artifact and leaves the store unchanged, and the batch result contains no error entry
  for the command.
\<close>

theorem no_valid_variations_no_error_entry:
  assumes "\<And>fs. mset (as_completed fs) = mset fs"
      and "validate_file bp input_file = Inr True"
      and "process_file bp input_file skip_header = Inr commands"
      and "command \<in> set commands"
      and "getitem command ''phrase'' = Inr phrase_text"
      and "call_gpt_api bp phrase_text = Inr raw_variations"
      and "getitem command ''intent'' = Inr intent_name"
      and "\<forall>v \<in> set raw_variations.
             \<not> contains (str_lower (interpreter bp) intent_name) (str_lower (interpreter bp) v)"
      and workers: "0 < max_workers bp"
  shows "process_command bp w command = (Inr ([], []), w)
       \<and> (\<exists>res. process_batch bp as_completed w input_file skip_header = (Inr res, w)
              \<and> command \<notin> fst ` set (errors res))"
proof -
  have "validate_variations bp raw_variations intent_name = []"
    using assms(8) by (simp add: validate_variations_def)
  then have gv: "generate_variations bp command = Inr []"
    using assms(5-7) by (simp add: generate_variations_def)
  then have pc: "process_command bp w command = (Inr ([], []), w)"
    by (simp add: process_command_eq)
  from process_batch_summary [OF assms(1-3) workers, of w] obtain res where
    run: "process_batch bp as_completed w input_file skip_header = (Inr res, w)"
    and err: "mset (errors res) = image_mset (\<lambda>c. (c, message (projl (fst (process_command bp w c)))))
                (filter_mset (\<lambda>c. isl (fst (process_command bp w c))) (mset commands))"
    by blast
  have "fst ` set (errors res) = {c \<in> set commands. isl (fst (process_command bp w c))}"
    using err by (rule errors_commands)
  then have "command \<notin> fst ` set (errors res)" using pc by simp
  with pc run show ?thesis by blast
qed

theorem no_valid_variations_no_error_entry_witness:
  "\<forall>u. (\<forall>fs :: (pydict \<times> outcome) list. mset (rev fs) = mset fs)
   \<and> validate_file (test_processor u [weather, lights_on]) ''commands.csv'' = Inr True
   \<and> process_file (test_processor u [weather, lights_on]) ''commands.csv'' 0
        = Inr [weather, lights_on]
   \<and> 0 < max_workers (test_processor u [weather, lights_on])
   \<and> lights_on \<in> set [weather, lights_on]
   \<and> getitem lights_on ''phrase'' = Inr ''turn on the lights''
   \<and> getitem lights_on ''intent'' = Inr ''LIGHTS_ON''
   \<and> process_command (test_processor u [weather, lights_on]) () lights_on = (Inr ([], []), ())
   \<and> (\<exists>res. process_batch (test_processor u [weather, lights_on]) rev () ''commands.csv'' 0
               = (Inr res, ())
            \<and> lights_on \<notin> fst ` set (errors res))"
  (is "\<forall>u. ?W u")
proof
  fix u
  let ?bp = "test_processor u [weather, lights_on]"
  let ?raw = "[''turn on the lights (variation 1)'', ''turn on the lights (variation 2)'',
       ''turn on the lights (variation 3)'', ''turn on the lights (variation 4)'',
       ''turn on the lights (variation 5)'']"
  have p: "\<And>fs :: (pydict \<times> outcome) list. mset (rev fs) = mset fs" by simp
  have v: "validate_file ?bp ''commands.csv'' = Inr True"
    and r: "process_file ?bp ''commands.csv'' 0 = Inr [weather, lights_on]"
    and k: "0 < max_workers ?bp"
    by (simp_all add: test_processor_def BatchProcessor_init_def)
  have m: "lights_on \<in> set [weather, lights_on]" by simp
  have ph: "getitem lights_on ''phrase'' = Inr ''turn on the lights''"
    and it: "getitem lights_on ''intent'' = Inr ''LIGHTS_ON''"
    by (simp_all add: getitem_def lights_on_def)
  have g: "call_gpt_api ?bp ''turn on the lights'' = Inr ?raw"
    by (simp add: test_processor_def BatchProcessor_init_def placeholder_variations)
  have f: "\<forall>v \<in> set ?raw.
             \<not> contains (str_lower (interpreter ?bp) ''LIGHTS_ON'') (str_lower (interpreter ?bp) v)"
    by (simp add: text_eval)
  from no_valid_variations_no_error_entry [of rev ?bp "''commands.csv''" 0 "[weather, lights_on]"
      lights_on "''turn on the lights''" ?raw "''LIGHTS_ON''" "()", OF p v r m ph g it f k]
  show "?W u" using v r k ph it by auto
qed

subsection \<open>C1: a command whose synthesis always fails\<close>

text \<open>
  C1. A command whose synthesis raises for every variation is meant to give one error
  entry, and the code misses it. The documentation of \<open>create_audio_files\<close> and of
  \<open>_process_command\<close> says that they raise when audio generation fails, and an
  exception raised there would reach the \<open>except\<close> branch of \<open>process_batch\<close>, which
  appends the error entry; but \<open>create_audio_files\<close> catches the exception of every
  variation and only logs it. With a synthesis service that raises for every text, in
  every interpreter \<open>u\<close>: the five variations of the command \<open>lights\<close> are generated, the
  synthesis raises for each of them, \<open>create_audio_files\<close> returns the empty list,
  \<open>_process_command\<close> returns the variations and no file, and the batch of this single
  command returns normally, counts the five variations and has no error entry at all.
\<close>

theorem synthesis_failure_not_reported:
  "generate_variations ((test_processor u [lights])\<lparr>generate_audio := failing_generate_audio\<rparr>)
        lights
       = Inr [''turn on the lights (variation 1)'', ''turn on the lights (variation 2)'',
              ''turn on the lights (variation 3)'', ''turn on the lights (variation 4)'',
              ''turn on the lights (variation 5)'']
   \<and> list_all
        (\<lambda>v. generate_audio ((test_processor u [lights])\<lparr>generate_audio := failing_generate_audio\<rparr>)
                v ''english'' = Inl (Exn ServiceError ''synthesis failed''))
        [''turn on the lights (variation 1)'', ''turn on the lights (variation 2)'',
         ''turn on the lights (variation 3)'', ''turn on the lights (variation 4)'',
         ''turn on the lights (variation 5)'']
   \<and> create_audio_files ((test_processor u [lights])\<lparr>generate_audio := failing_generate_audio\<rparr>) ()
        [''turn on the lights (variation 1)'', ''turn on the lights (variation 2)'',
         ''turn on the lights (variation 3)'', ''turn on the lights (variation 4)'',
         ''turn on the lights (variation 5)''] lights
       = ([], ())
   \<and> process_command ((test_processor u [lights])\<lparr>generate_audio := failing_generate_audio\<rparr>) ()
        lights
       = (Inr ([''turn on the lights (variation 1)'', ''turn on the lights (variation 2)'',
                ''turn on the lights (variation 3)'', ''turn on the lights (variation 4)'',
                ''turn on the lights (variation 5)''], []), ())
   \<and> process_batch ((test_processor u [lights])\<lparr>generate_audio := failing_generate_audio\<rparr>)
        (\<lambda>fs. fs) () ''commands.csv'' 0
       = (Inr \<lparr> total_commands = 1, successful_variations = 5, successful_audio_files = 0,
                 errors = [] \<rparr>, ())"
proof -
  let ?bp = "(test_processor u [lights])\<lparr>generate_audio := failing_generate_audio\<rparr>"
  let ?vs = "[''turn on the lights (variation 1)'', ''turn on the lights (variation 2)'',
              ''turn on the lights (variation 3)'', ''turn on the lights (variation 4)'',
              ''turn on the lights (variation 5)'']"
  have g: "generate_variations ?bp lights = Inr ?vs"
    by (rule test_lights_variations)
  have s: "list_all (\<lambda>v. generate_audio ?bp v ''english''
                            = Inl (Exn ServiceError ''synthesis failed'')) ?vs"
    by (simp add: failing_generate_audio_def)
  have c: "create_audio_files ?bp () ?vs lights = ([], ())"
    by (rule create_audio_files_nothing)
  have p: "process_command ?bp () lights = (Inr (?vs, []), ())"
    by (simp add: process_command_eq g)
  have "validate_file ?bp ''commands.csv'' = Inr True"
    and "process_file ?bp ''commands.csv'' 0 = Inr [lights]"
    and "0 < max_workers ?bp"
    by (simp_all add: test_processor_def BatchProcessor_init_def)
  then have b: "process_batch ?bp (\<lambda>fs. fs) () ''commands.csv'' 0
       = (Inr \<lparr> total_commands = 1, successful_variations = 5, successful_audio_files = 0,
                 errors = [] \<rparr>, ())"
    by (simp add: process_batch_def submit_all_eq process_command_eq g)
  from g s c p b show ?thesis by (intro conjI)
qed
section \<open>Properties of the input processor\<close>

lemmas phrase_eval = sanitize_phrase_def str_split_def isspace_def isalnum_def is_ascii_def
  ascii_lowercase_def ascii_uppercase_def digits_def

lemma sanitize_phrase_examples:
  "sanitize_phrase u ''  Turn   on  the lights!  '' = ''Turn on the lights''"
  "sanitize_phrase u ''Volume up by 20%'' = ''Volume up by 20''"
  "sanitize_phrase u ''Set alarm for 7:00 AM'' = ''Set alarm for 700 AM''"
  by (simp_all add: phrase_eval)

lemma sanitize_phrase_twice:
  "sanitize_phrase u ''rock - roll'' = ''rock  roll''"
  "sanitize_phrase u ''rock  roll'' = ''rock roll''"
  by (simp_all add: phrase_eval)

text \<open>
  C6. Validation is meant to be idempotent, and the code misses it: the row with phrase
  \<open>rock - roll\<close> is valid and gives a Command with the phrase \<open>rock  roll\<close> (the hyphen is
  removed after the whitespace was normalised, which leaves two spaces); validating
  that Command again gives the phrase \<open>rock roll\<close>, a different Command. The row is
  ASCII, so this is what every interpreter computes, whatever its character tables \<open>u\<close>.
\<close>

theorem validate_row_not_idempotent:
  "validate_row (InputProcessor_init u)
      [(''intent'', ''play_music''), (''phrase'', ''rock - roll''), (''language'', ''English'')]
     = Inr [(''intent'', ''PLAY_MUSIC''), (''phrase'', ''rock  roll''), (''language'', ''english'')]
   \<and> validate_row (InputProcessor_init u)
      [(''intent'', ''PLAY_MUSIC''), (''phrase'', ''rock  roll''), (''language'', ''english'')]
     = Inr [(''intent'', ''PLAY_MUSIC''), (''phrase'', ''rock roll''), (''language'', ''english'')]
   \<and> [(''intent'', ''PLAY_MUSIC''), (''phrase'', ''rock  roll''), (''language'', ''english'')]
     \<noteq> [(''intent'', ''PLAY_MUSIC''), (''phrase'', ''rock roll''), (''language'', ''english'')]"
  by (simp add: validate_row_def getitem_def InputProcessor_init_def SUPPORTED_LANGUAGES_def
      map_intent_def str_strip_def str_upper_def upper_char_def str_lower_def lower_char_def
      sanitize_phrase_twice isspace_def is_ascii_def ascii_lowercase_def ascii_uppercase_def)

section \<open>Properties of the file manager and the S3 storage\<close>












subsection \<open>C5: where the file manager stores an artifact\<close>




subsection \<open>C7: deleting\<close>





end
